theory Spec2Isabelle
  imports Main "HOL-Library.Word" "HOL-Library.AList"
begin

section \<open>Data model\<close>

text \<open>
  \<open>NodeId\<close> comes from the common library. The sources use three things of it: equality,
  the default-constructed \<open>NodeId()\<close> and \<open>IsValid()\<close>. An id is a number here, the
  default-constructed one is \<open>0\<close>, and it is the one invalid id.
\<close>

type_synonym node_id = nat

definition NodeId_default :: node_id where
  "NodeId_default = 0"

definition NodeId_IsValid :: "node_id \<Rightarrow> bool" where
  "NodeId_IsValid n = (n \<noteq> NodeId_default)"

text \<open>\<open>boost::asio::ip::udp::endpoint\<close>: an address and a 16-bit port.\<close>

record endpoint =
  address :: nat
  port :: "16 word"

text \<open>\<open>Connection::State\<close>, as named in \<open>connection_manager.cc\<close> and \<open>transport.cc\<close>.\<close>

datatype conn_state =
  kPending | kTemporary | kBootstrapping | kUnvalidated | kPermanent | kDuplicate

text \<open>
  A \<open>ConnectionPtr\<close> points to a \<open>Connection\<close> object. \<open>conn_ptr\<close> is the address held by
  the pointer (the identity of the object), \<open>state\<close> is \<open>connection->state()\<close> and
  \<open>PeerNodeId\<close> is \<open>connection->Socket().PeerNodeId()\<close>.
\<close>

record connection =
  conn_ptr :: nat
  state :: conn_state
  PeerNodeId :: node_id

datatype error = AssertionFailed

section \<open>The connection set of \<open>ConnectionManager\<close>\<close>

definition IsNormal :: "connection \<Rightarrow> bool" where
  "IsNormal c \<longleftrightarrow>
     state c = kPermanent \<or> state c = kUnvalidated \<or> state c = kBootstrapping"

text \<open>
  \<open>connections_\<close> is a \<open>ConnectionGroup\<close>, declared in \<open>connection_manager.h\<close>, which is
  not among the sources. The code uses it as a \<open>std::set\<close>: \<open>insert\<close> returns a pair
  whose second component tells whether the element went in, \<open>erase\<close> takes an element,
  and iteration is in the order of the set. What the set compares is therefore a
  parameter of the model, the function \<open>key\<close>: \<open>insert\<close> refuses an element whose key is
  already present, and the list is kept in the order of the keys.

  The one declaration of a connection set among the sources is
  \<open>typedef std::set<ConnectionPtr> ConnectionSet\<close> in \<open>transport.h\<close>: a set of shared
  pointers with the default ordering, which compares the addresses. That is the
  instance \<open>key = conn_ptr\<close>.
\<close>

definition set_insert ::
  "('a \<Rightarrow> 'k::linorder) \<Rightarrow> 'a \<Rightarrow> 'a list \<Rightarrow> 'a list \<times> bool" where
  "set_insert key x xs =
     (if key x \<in> key ` set xs then (xs, False) else (insort_key key x xs, True))"

definition set_erase :: "('a \<Rightarrow> 'k::linorder) \<Rightarrow> 'a \<Rightarrow> 'a list \<Rightarrow> 'a list" where
  "set_erase key x xs = filter (\<lambda>y. key y \<noteq> key x) xs"

text \<open>
  \<open>ConnectionManager::AddConnection\<close>. An \<open>assert\<close> that fails ends the program: it is
  the result \<open>Inl AssertionFailed\<close>. The boolean is the function's return value.
\<close>

definition AddConnection ::
  "(connection \<Rightarrow> 'k::linorder) \<Rightarrow> connection \<Rightarrow> connection list
     \<Rightarrow> error + (bool \<times> connection list)" where
  "AddConnection key c cs =
     (if state c = kPending then Inl AssertionFailed
      else if IsNormal c then
        (case set_insert key c cs of
           (cs', inserted) \<Rightarrow>
             if \<not> inserted then Inl AssertionFailed else Inr (inserted, cs'))
      else Inr (False, cs))"

text \<open>\<open>ConnectionManager::RemoveConnection\<close>.\<close>

definition RemoveConnection ::
  "(connection \<Rightarrow> 'k::linorder) \<Rightarrow> connection \<Rightarrow> connection list
     \<Rightarrow> error + connection list" where
  "RemoveConnection key c cs =
     (if \<not> IsNormal c then Inl AssertionFailed else Inr (set_erase key c cs))"

text \<open>
  \<open>ConnectionManager::FindConnection\<close>: \<open>std::find_if\<close> over the set, in its order;
  \<open>None\<close> is \<open>connections_.end()\<close>.
\<close>

definition FindConnection :: "node_id \<Rightarrow> connection list \<Rightarrow> connection option" where
  "FindConnection peer_id cs = List.find (\<lambda>c. PeerNodeId c = peer_id) cs"

text \<open>\<open>ConnectionManager::NormalConnectionsCount\<close>: \<open>connections_.size()\<close>.\<close>

definition NormalConnectionsCount :: "connection list \<Rightarrow> nat" where
  "NormalConnectionsCount cs = length cs"

text \<open>\<open>McTransport::kMaxConnections\<close> of \<open>transport.h\<close>.\<close>

definition kMaxConnections :: nat where
  "kMaxConnections = 50"

text \<open>
  A sequence of \<open>AddConnection\<close> calls, one for each connection of the list, from left to
  right. A failed assertion ends the run.
\<close>

fun add_connections ::
  "(connection \<Rightarrow> 'k::linorder) \<Rightarrow> connection list \<Rightarrow> connection list
     \<Rightarrow> error + connection list" where
  "add_connections key [] cs = Inr cs"
| "add_connections key (c # rest) cs =
     (case AddConnection key c cs of
        Inl e \<Rightarrow> Inl e
      | Inr (_, cs') \<Rightarrow> add_connections key rest cs')"

text \<open>The number of connections of the set that are normal and have the given peer.\<close>

definition normal_to_peer :: "node_id \<Rightarrow> connection list \<Rightarrow> nat" where
  "normal_to_peer peer_id cs =
     length (filter (\<lambda>c. IsNormal c \<and> PeerNodeId c = peer_id) cs)"

section \<open>The socket registry of \<open>ConnectionManager\<close>\<close>

text \<open>
  What the connection manager reads of a \<open>Socket\<close>: \<open>PeerEndpoint()\<close>,
  \<open>IsConnected()\<close> and \<open>PeerGuessedPort()\<close>.
\<close>

record socket =
  PeerEndpoint :: endpoint
  IsConnected :: bool
  PeerGuessedPort :: "16 word"

text \<open>
  Modelled from the spec: \<open>Socket::UpdatePeerEndpoint\<close> is defined in
  \<open>core/socket.cc\<close>, which is not among the sources. The spec: "update the socket's
  peer endpoint to \<open>sender\<close> (record the original port as \<open>peer_guessed_port\<close>)".
\<close>

definition UpdatePeerEndpoint :: "endpoint \<Rightarrow> socket \<Rightarrow> socket" where
  "UpdatePeerEndpoint ep s = s\<lparr>PeerEndpoint := ep, PeerGuessedPort := port (PeerEndpoint s)\<rparr>"

text \<open>
  \<open>sockets_\<close> is a \<open>SocketMap\<close>, from socket ids to sockets. It is a list of pairs with
  distinct ids. \<open>sockets_[id] = socket\<close> is \<open>AList.update\<close>, \<open>sockets_.erase(id)\<close> is
  \<open>AList.delete\<close>, \<open>sockets_.find(id)\<close> is \<open>map_of\<close>, and \<open>std::find_if\<close> walks the list
  from its head. The container itself keeps its entries in the order of the keys or of
  their hashes, whereas \<open>AList.update\<close> puts a new entry at the end of the list: where
  several sockets satisfy a search, the list need not name the one that the container
  reaches first. Every property of \<open>GetSocket\<close> below is stated for an arbitrary list,
  and so for the order of the container as well.
\<close>

type_synonym SocketMap = "(32 word \<times> socket) list"

text \<open>
  The loop of \<open>ConnectionManager::AddSocket\<close>. \<open>RandomUint32()\<close> is outside the
  sources: the list holds the numbers that its successive calls return. The loop takes
  a number from the list each time it goes round; \<open>None\<close> says that the list ran out
  while the loop was still going. The rest of the list is returned with the id.
\<close>

fun AddSocket_loop ::
  "SocketMap \<Rightarrow> 32 word \<Rightarrow> 32 word list \<Rightarrow> (32 word \<times> 32 word list) option" where
  "AddSocket_loop socks i [] =
     (if i = 0 \<or> map_of socks i \<noteq> None then None else Some (i, []))"
| "AddSocket_loop socks i (r # rs) =
     (if i = 0 \<or> map_of socks i \<noteq> None then AddSocket_loop socks r rs
      else Some (i, r # rs))"

definition AddSocket ::
  "socket \<Rightarrow> 32 word list \<Rightarrow> SocketMap \<Rightarrow> (32 word \<times> SocketMap \<times> 32 word list) option" where
  "AddSocket s random socks =
     (case AddSocket_loop socks 0 random of
        None \<Rightarrow> None
      | Some (i, random') \<Rightarrow> Some (i, AList.update i s socks, random'))"

definition RemoveSocket :: "32 word \<Rightarrow> SocketMap \<Rightarrow> SocketMap" where
  "RemoveSocket i socks = (if i \<noteq> 0 then AList.delete i socks else socks)"

text \<open>A registry operation, and a run of operations from a registry.\<close>

datatype registry_op = Add socket "32 word list" | Remove "32 word"

fun registry_run :: "registry_op list \<Rightarrow> SocketMap \<Rightarrow> SocketMap option" where
  "registry_run [] socks = Some socks"
| "registry_run (Add s random # ops) socks =
     (case AddSocket s random socks of
        None \<Rightarrow> None
      | Some (_, socks', _) \<Rightarrow> registry_run ops socks')"
| "registry_run (Remove i # ops) socks = registry_run ops (RemoveSocket i socks)"

section \<open>\<open>ConnectionManager\<close>: connecting, pinging and routing handshakes\<close>

text \<open>
  \<open>boost::posix_time::time_duration\<close>: a length of time (the default-constructed one
  is zero) or \<open>pos_infin\<close>.
\<close>

datatype duration = Duration nat | pos_infin

text \<open>
  What the sources use and do not define: \<open>IsValid\<close> and \<open>OnPrivateNetwork\<close> of
  \<open>utils.h\<close>, and the three durations of \<open>Parameters\<close>. They are parameters of the
  model.
\<close>

record externals =
  IsValid :: "endpoint \<Rightarrow> bool"
  OnPrivateNetwork :: "endpoint \<Rightarrow> bool"
  bootstrap_connect_timeout :: duration
  bootstrap_connection_lifespan :: duration
  rendezvous_connect_timeout :: duration

text \<open>
  Modelled from the spec: the enumeration of connection reasons is declared in
  \<open>core/session.h\<close>, which is not among the sources. The sources name \<open>kNormal\<close> and
  \<open>kBootstrapAndDrop\<close>; the spec lists
  \<open>connection_reason \<in> {Normal, BootstrapAndDrop, NatDetection, Ping}\<close>.
\<close>

datatype session_mode = kNormal | kBootstrapAndDrop | kNatDetection | kPing

record HandshakePacket =
  node_id :: node_id
  ConnectionReason :: session_mode

text \<open>
  The packet codec is outside the sources. A received buffer is given by what the two
  decoders make of it: \<open>Packet::DecodeDestinationSocketId\<close> (\<open>None\<close> when it returns
  false) and \<open>HandshakePacket::Decode\<close> (\<open>None\<close> when it returns false).
\<close>

record buffer =
  DecodeDestinationSocketId :: "32 word option"
  Decode :: "HandshakePacket option"

text \<open>
  The state of a \<open>ConnectionManager\<close>. \<open>transport_alive\<close> says whether
  \<open>transport_.lock()\<close> yields a transport.
\<close>

record ConnectionManager =
  connections :: "connection list"
  sockets :: SocketMap
  transport_alive :: bool
  kThisNodeId :: node_id

text \<open>
  What the connection manager does to other objects, in the order in which it does it.
  A functor is named by a number; \<open>None\<close> is the empty functor.
\<close>

datatype effect =
    MakeConnection
  | StartConnecting node_id endpoint string duration duration "nat option"
  | ConnectionPing node_id endpoint nat
  | ConnectionClose nat
  | SocketUpdatePeerEndpoint "32 word" endpoint

text \<open>
  \<open>ConnectionManager::Connect\<close> and \<open>ConnectionManager::Ping\<close>. Neither writes a member
  of the connection manager; what the new \<open>Connection\<close> goes on to do is in
  \<open>connection.cc\<close>, outside the sources.
\<close>

definition Connect ::
  "ConnectionManager \<Rightarrow> node_id \<Rightarrow> endpoint \<Rightarrow> string \<Rightarrow> duration \<Rightarrow> duration \<Rightarrow> nat option
     \<Rightarrow> ConnectionManager \<times> effect list" where
  "Connect cm peer_id peer_endpoint validation_data connect_attempt_timeout lifespan
       failure_functor =
     (if transport_alive cm then
        (cm, [MakeConnection,
              StartConnecting peer_id peer_endpoint validation_data connect_attempt_timeout
                lifespan failure_functor])
      else (cm, []))"

definition Ping ::
  "ConnectionManager \<Rightarrow> node_id \<Rightarrow> endpoint \<Rightarrow> nat \<Rightarrow> ConnectionManager \<times> effect list" where
  "Ping cm peer_id peer_endpoint ping_functor =
     (if transport_alive cm then
        (cm, [MakeConnection, ConnectionPing peer_id peer_endpoint ping_functor])
      else (cm, []))"

text \<open>
  \<open>ConnectionManager::CloseConnection\<close>: the connection found for the peer is closed
  on the strand; the set itself is left as it is.
\<close>

definition CloseConnection :: "node_id \<Rightarrow> connection list \<Rightarrow> bool \<times> effect list" where
  "CloseConnection peer_id cs =
     (case FindConnection peer_id cs of
        None \<Rightarrow> (False, [])
      | Some c \<Rightarrow> (True, [ConnectionClose (conn_ptr c)]))"

text \<open>
  The events that act on the connection set: \<open>AddConnection\<close>, \<open>RemoveConnection\<close> and
  \<open>CloseConnection\<close>, and a run of events from a set. A failed assertion ends the run.
\<close>

datatype connection_event = EvAdd connection | EvRemove connection | EvClose node_id

fun connection_events ::
  "(connection \<Rightarrow> 'k::linorder) \<Rightarrow> connection_event list \<Rightarrow> connection list
     \<Rightarrow> error + connection list" where
  "connection_events key [] cs = Inr cs"
| "connection_events key (EvAdd c # evs) cs =
     (case AddConnection key c cs of
        Inl e \<Rightarrow> Inl e
      | Inr (_, cs') \<Rightarrow> connection_events key evs cs')"
| "connection_events key (EvRemove c # evs) cs =
     (case RemoveConnection key c cs of
        Inl e \<Rightarrow> Inl e
      | Inr cs' \<Rightarrow> connection_events key evs cs')"
| "connection_events key (EvClose peer_id # evs) cs =
     (case CloseConnection peer_id cs of
        (closed, effects) \<Rightarrow> connection_events key evs cs)"

text \<open>\<open>ConnectionManager::HandlePingFrom\<close>.\<close>

definition HandlePingFrom ::
  "externals \<Rightarrow> ConnectionManager \<Rightarrow> HandshakePacket \<Rightarrow> endpoint
     \<Rightarrow> ConnectionManager \<times> effect list" where
  "HandlePingFrom ext cm handshake_packet ep =
     (if node_id handshake_packet = kThisNodeId cm then (cm, [])
      else if IsValid ext ep then
        (let bootstrap_and_drop = (ConnectionReason handshake_packet = kBootstrapAndDrop);
             joining_connection =
               (case FindConnection (node_id handshake_packet) (connections cm) of
                  Some c \<Rightarrow> if \<not> bootstrap_and_drop then Some c else None
                | None \<Rightarrow> None)
         in case joining_connection of
              Some c \<Rightarrow> (cm, [ConnectionClose (conn_ptr c)])
            | None \<Rightarrow>
                Connect cm (node_id handshake_packet) ep '''' (bootstrap_connect_timeout ext)
                  (if bootstrap_and_drop then Duration 0
                   else bootstrap_connection_lifespan ext)
                  None)
      else (cm, []))"

text \<open>
  \<open>ConnectionManager::GetSocket\<close>. The result is the id under which the returned socket
  is registered (\<open>None\<close> for \<open>nullptr\<close>), the connection manager afterwards, and the
  effects.
\<close>

definition GetSocket ::
  "externals \<Rightarrow> ConnectionManager \<Rightarrow> buffer \<Rightarrow> endpoint
     \<Rightarrow> 32 word option \<times> ConnectionManager \<times> effect list" where
  "GetSocket ext cm data ep =
     (if sockets cm = [] then (None, cm, [])
      else case DecodeDestinationSocketId data of
        None \<Rightarrow> (None, cm, [])
      | Some socket_id \<Rightarrow>
          if socket_id = 0 then
            (case Decode data of
               None \<Rightarrow> (None, cm, [])
             | Some handshake_packet \<Rightarrow>
                 if ConnectionReason handshake_packet = kNormal then
                   (case List.find (\<lambda>(i, s). PeerEndpoint s = ep) (sockets cm) of
                      Some (i, s) \<Rightarrow> (Some i, cm, [])
                    | None \<Rightarrow>
                        (case List.find
                                (\<lambda>(i, s). address (PeerEndpoint s) = address ep \<and>
                                          \<not> OnPrivateNetwork ext (PeerEndpoint s) \<and>
                                          \<not> IsConnected s)
                                (sockets cm) of
                           Some (i, s) \<Rightarrow>
                             (Some i,
                              cm\<lparr>sockets :=
                                    AList.update i (UpdatePeerEndpoint ep s) (sockets cm)\<rparr>,
                              [SocketUpdatePeerEndpoint i ep])
                         | None \<Rightarrow> (None, cm, [])))
                 else
                   (case List.find (\<lambda>(i, s). PeerEndpoint s = ep) (sockets cm) of
                      None \<Rightarrow>
                        (case HandlePingFrom ext cm handshake_packet ep of
                           (cm', effects) \<Rightarrow> (None, cm', effects))
                    | Some (i, s) \<Rightarrow> (Some i, cm, [])))
          else
            (case map_of (sockets cm) socket_id of
               Some s \<Rightarrow> (Some socket_id, cm, [])
             | None \<Rightarrow> (None, cm, [])))"

section \<open>\<open>Transport\<close>: rendezvous connect and bootstrapping\<close>

record EndpointPair =
  local :: endpoint
  external :: endpoint

record Contact =
  contact_id :: node_id
  endpoint_pair :: EndpointPair
  public_key :: nat

text \<open>The default-constructed \<open>Endpoint()\<close> and \<open>Contact()\<close>.\<close>

definition Endpoint_default :: endpoint where
  "Endpoint_default = \<lparr>address = 0, port = 0\<rparr>"

definition Contact_default :: Contact where
  "Contact_default =
     \<lparr>contact_id = NodeId_default,
      endpoint_pair = \<lparr>local = Endpoint_default, external = Endpoint_default\<rparr>,
      public_key = 0\<rparr>"

text \<open>
  \<open>NatType\<close> and the return codes are declared outside the sources; \<open>transport.cc\<close>
  names \<open>NatType::kSymmetric\<close>, \<open>kSuccess\<close> and \<open>kNotConnectable\<close>.
\<close>

datatype NatType = kSymmetric | kOther | kUnknown

datatype ReturnCode = kSuccess | kNotConnectable

text \<open>
  A \<open>std::error_code\<close>: \<open>None\<close> is the code that tests false (no error), \<open>Some e\<close>
  an error.
\<close>

datatype RudpErrors = failed_to_connect | timed_out

type_synonym error_code = "RudpErrors option"

text \<open>
  The closures that \<open>Transport\<close> hands to \<open>ConnectionManager::Connect\<close> as the connect
  handler: \<open>on_connect\<close> and \<open>on_connect2\<close> of \<open>DoConnect\<close>, and the \<open>on_connect\<close> of
  \<open>ConnectToBootstrapEndpoint\<close>.
\<close>

datatype OnConnect = on_connect | on_connect2 | bootstrap_on_connect

text \<open>
  What \<open>Transport\<close> does, in order: a call of \<open>DoConnect\<close>'s \<open>handler\<close>, a call of
  \<open>connection_manager_->Connect\<close> (peer, endpoint, public key, connect timeout, lifespan,
  connect handler), a call of the default connect handler with an error code and a
  connection, a call of \<open>DetectNatType\<close>, and a call of the bootstrap handler.
\<close>

datatype transport_effect =
    Handler error_code
  | ConnectionManager_Connect node_id endpoint nat duration duration OnConnect
  | default_on_connect error_code nat
  | DetectNatType node_id
  | BootstrapHandler ReturnCode Contact

text \<open>
  \<open>Transport::DoConnect\<close>. \<open>multiplexer_IsOpen\<close> is \<open>multiplexer_->IsOpen()\<close> at the
  time of the call.
\<close>

definition DoConnect ::
  "externals \<Rightarrow> bool \<Rightarrow> node_id \<Rightarrow> EndpointPair \<Rightarrow> nat \<Rightarrow> transport_effect list" where
  "DoConnect ext multiplexer_IsOpen peer_id peer_endpoint_pair peer_public_key =
     (if \<not> multiplexer_IsOpen then [Handler (Some failed_to_connect)]
      else if IsValid ext (external peer_endpoint_pair) then
        [ConnectionManager_Connect peer_id (external peer_endpoint_pair) peer_public_key
           (rendezvous_connect_timeout ext) pos_infin
           (if local peer_endpoint_pair \<noteq> external peer_endpoint_pair then on_connect2
            else on_connect)]
      else
        [ConnectionManager_Connect peer_id (local peer_endpoint_pair) peer_public_key
           (rendezvous_connect_timeout ext) pos_infin on_connect])"

text \<open>
  What the two closures of \<open>DoConnect\<close> do when the connect attempt they were given to
  calls them with an error code and a connection. \<open>multiplexer_IsOpen\<close> is
  \<open>multiplexer_->IsOpen()\<close> at the time of that call.
\<close>

definition DoConnect_on_connect :: "error_code \<Rightarrow> nat \<Rightarrow> transport_effect list" where
  "DoConnect_on_connect error c = [default_on_connect error c, Handler error]"

definition DoConnect_on_connect2 ::
  "externals \<Rightarrow> bool \<Rightarrow> node_id \<Rightarrow> EndpointPair \<Rightarrow> nat \<Rightarrow> error_code \<Rightarrow> nat
     \<Rightarrow> transport_effect list" where
  "DoConnect_on_connect2 ext multiplexer_IsOpen peer_id peer_endpoint_pair peer_public_key
       error c =
     (if \<not> multiplexer_IsOpen then DoConnect_on_connect error c
      else
        [ConnectionManager_Connect peer_id (local peer_endpoint_pair) peer_public_key
           (rendezvous_connect_timeout ext) pos_infin on_connect])"

text \<open>The \<open>Connect\<close> calls among the effects, as (peer, endpoint) pairs.\<close>

fun connects_started :: "transport_effect list \<Rightarrow> (node_id \<times> endpoint) list" where
  "connects_started [] = []"
| "connects_started (ConnectionManager_Connect p e k t l h # es) = (p, e) # connects_started es"
| "connects_started (_ # es) = connects_started es"

text \<open>
  \<open>Transport::ConnectToBootstrapEndpoint\<close> for one contact. The connect attempt itself
  runs outside the sources; \<open>outcome\<close> is what it calls the connect handler with:
  \<open>None\<close> for an error, \<open>Some p\<close> for success with a connection whose
  \<open>Socket().PeerNodeId()\<close> is \<open>p\<close>. The connection is named by the number \<open>0\<close>. The
  result is the effects and the id given to \<open>handler\<close>. \<open>DetectNatType\<close> calls its
  handler whatever the ping gives.
\<close>

definition ConnectToBootstrapEndpoint_contact ::
  "externals \<Rightarrow> duration \<Rightarrow> Contact \<Rightarrow> node_id option
     \<Rightarrow> transport_effect list \<times> node_id" where
  "ConnectToBootstrapEndpoint_contact ext lifespan contact outcome =
     (if \<not> IsValid ext (external (endpoint_pair contact)) then ([], NodeId_default)
      else
        (let call = ConnectionManager_Connect (contact_id contact)
                      (external (endpoint_pair contact)) (public_key contact)
                      (bootstrap_connect_timeout ext) lifespan bootstrap_on_connect
         in case outcome of
              None \<Rightarrow> ([call], NodeId_default)
            | Some peer_id \<Rightarrow>
                ([call, default_on_connect None 0, DetectNatType peer_id], peer_id)))"

text \<open>
  \<open>Transport::ConnectToBootstrapEndpoint\<close> over the range \<open>[begin, end)\<close>. Each contact
  of the list comes with the outcome of a connect attempt to it. The result is the
  contacts that were tried, the effects, and the id given to \<open>handler\<close>.
\<close>

fun ConnectToBootstrapEndpoint ::
  "externals \<Rightarrow> duration \<Rightarrow> (Contact \<times> node_id option) list
     \<Rightarrow> Contact list \<times> transport_effect list \<times> node_id" where
  "ConnectToBootstrapEndpoint ext lifespan [] = ([], [], NodeId_default)"
| "ConnectToBootstrapEndpoint ext lifespan ((contact, outcome) # rest) =
     (case ConnectToBootstrapEndpoint_contact ext lifespan contact outcome of
        (effects, peer_id) \<Rightarrow>
          if \<not> NodeId_IsValid peer_id then
            (case ConnectToBootstrapEndpoint ext lifespan rest of
               (tried, effects', r) \<Rightarrow> (contact # tried, effects @ effects', r))
          else ([contact], effects, peer_id))"

text \<open>The closure \<open>on_bootstrap\<close> of \<open>Transport::TryBootstrapping\<close>.\<close>

definition on_bootstrap :: "Contact list \<Rightarrow> node_id \<Rightarrow> error + transport_effect list" where
  "on_bootstrap bootstrap_list peer_id =
     (if NodeId_IsValid peer_id then
        (case List.find (\<lambda>contact. contact_id contact = peer_id) bootstrap_list of
           None \<Rightarrow> Inl AssertionFailed
         | Some contact \<Rightarrow> Inr [BootstrapHandler kSuccess contact])
      else Inr [BootstrapHandler kNotConnectable Contact_default])"

text \<open>
  \<open>Transport::TryBootstrapping\<close>. \<open>local_endpoint\<close> is \<open>multiplexer_->local_endpoint()\<close>.
  The result is the contacts that were tried and the effects.
\<close>

definition TryBootstrapping ::
  "externals \<Rightarrow> NatType \<Rightarrow> endpoint \<Rightarrow> (Contact \<times> node_id option) list \<Rightarrow> bool
     \<Rightarrow> error + (Contact list \<times> transport_effect list)" where
  "TryBootstrapping ext nat_type local_endpoint bootstrap_list
       bootstrap_off_existing_connection =
     (let try_connect =
            (if bootstrap_off_existing_connection then nat_type \<noteq> kSymmetric else True);
          lifespan =
            (if bootstrap_off_existing_connection then Duration 0
             else bootstrap_connection_lifespan ext)
      in if \<not> try_connect then Inr ([], [BootstrapHandler kSuccess Contact_default])
         else if list_ex
                   (\<lambda>(peer, outcome).
                      local_endpoint = local (endpoint_pair peer) \<or>
                      local_endpoint = external (endpoint_pair peer))
                   bootstrap_list
         then Inl AssertionFailed
         else
           (case ConnectToBootstrapEndpoint ext lifespan bootstrap_list of
              (tried, effects, peer_id) \<Rightarrow>
                (case on_bootstrap (map fst bootstrap_list) peer_id of
                   Inl e \<Rightarrow> Inl e
                 | Inr effects' \<Rightarrow> Inr (tried, effects @ effects'))))"

text \<open>The calls of the bootstrap handler among the effects.\<close>

fun bootstrap_reports :: "transport_effect list \<Rightarrow> (ReturnCode \<times> Contact) list" where
  "bootstrap_reports [] = []"
| "bootstrap_reports (BootstrapHandler code contact # es) =
     (code, contact) # bootstrap_reports es"
| "bootstrap_reports (_ # es) = bootstrap_reports es"

text \<open>
  The id that the attempt on a candidate gives to its handler; the candidate yields a
  valid peer id when this id is valid.
\<close>

definition yielded_id :: "externals \<Rightarrow> duration \<Rightarrow> Contact \<times> node_id option \<Rightarrow> node_id" where
  "yielded_id ext lifespan x =
     snd (ConnectToBootstrapEndpoint_contact ext lifespan (fst x) (snd x))"

section \<open>Auxiliary notions and sample data\<close>

text \<open>An id that \<open>AddSocket\<close> accepts: not zero and not in use.\<close>

definition usable_id :: "SocketMap \<Rightarrow> 32 word \<Rightarrow> bool" where
  "usable_id socks i \<longleftrightarrow> i \<noteq> 0 \<and> map_of socks i = None"

text \<open>The ids of a registry are distinct and none is zero.\<close>

definition registry_ok :: "SocketMap \<Rightarrow> bool" where
  "registry_ok socks \<longleftrightarrow> distinct (map fst socks) \<and> 0 \<notin> fst ` set socks"

text \<open>
  The \<open>Connect\<close> calls that trying the contacts of a list makes, one for each contact
  with a valid external endpoint, in the order of the list.
\<close>

definition attempted :: "externals \<Rightarrow> Contact list \<Rightarrow> (node_id \<times> endpoint) list" where
  "attempted ext cs =
     map (\<lambda>c. (contact_id c, external (endpoint_pair c)))
       (filter (\<lambda>c. IsValid ext (external (endpoint_pair c))) cs)"

text \<open>Sample data for the concrete instances below.\<close>

definition sample_connection :: "nat \<Rightarrow> connection" where
  "sample_connection i = \<lparr>conn_ptr = i, state = kPermanent, PeerNodeId = Suc i\<rparr>"

definition sample_private :: "endpoint \<Rightarrow> bool" where
  "sample_private ep \<longleftrightarrow> address ep < 10"

definition sample_valid :: "endpoint \<Rightarrow> bool" where
  "sample_valid ep \<longleftrightarrow> port ep \<noteq> 0"

definition sample_externals :: externals where
  "sample_externals =
     \<lparr>IsValid = sample_valid, OnPrivateNetwork = sample_private,
      bootstrap_connect_timeout = Duration 2000,
      bootstrap_connection_lifespan = Duration 600000,
      rendezvous_connect_timeout = Duration 5000\<rparr>"

definition sample_socket :: socket where
  "sample_socket =
     \<lparr>PeerEndpoint = \<lparr>address = 16909060, port = 40000\<rparr>, IsConnected = False,
      PeerGuessedPort = 0\<rparr>"

definition sample_sender :: endpoint where
  "sample_sender = \<lparr>address = 16909060, port = 40123\<rparr>"

definition sample_manager :: ConnectionManager where
  "sample_manager =
     \<lparr>connections = [sample_connection 1], sockets = [(5, sample_socket)],
      transport_alive = True, kThisNodeId = 100\<rparr>"

definition sample_handshake :: "node_id \<Rightarrow> session_mode \<Rightarrow> buffer" where
  "sample_handshake n r =
     \<lparr>DecodeDestinationSocketId = Some 0,
      Decode = Some \<lparr>node_id = n, ConnectionReason = r\<rparr>\<rparr>"

definition sample_pair :: EndpointPair where
  "sample_pair = \<lparr>local = \<lparr>address = 5, port = 5000\<rparr>, external = sample_sender\<rparr>"

definition sample_contact :: "node_id \<Rightarrow> nat \<Rightarrow> Contact" where
  "sample_contact n a =
     \<lparr>contact_id = n,
      endpoint_pair = \<lparr>local = \<lparr>address = a, port = 5000\<rparr>,
                       external = \<lparr>address = a, port = 5000\<rparr>\<rparr>,
      public_key = 1\<rparr>"

definition sample_candidates :: "(Contact \<times> node_id option) list" where
  "sample_candidates =
     [(sample_contact 4 20, None), (sample_contact 5 21, Some 5), (sample_contact 6 22, Some 6)]"

section \<open>Properties of the connection set\<close>

lemma AddConnection_not_normal:
  "state c \<noteq> kPending \<Longrightarrow> \<not> IsNormal c \<Longrightarrow> AddConnection key c cs = Inr (False, cs)"
  by (simp add: AddConnection_def)

lemma AddConnection_fresh:
  "IsNormal c \<Longrightarrow> key c \<notin> key ` set cs \<Longrightarrow>
   AddConnection key c cs = Inr (True, insort_key key c cs)"
  by (auto simp: AddConnection_def IsNormal_def set_insert_def)

lemma AddConnection_length:
  "AddConnection key c cs = Inr (b, cs') \<Longrightarrow>
   length cs' = length cs + (if IsNormal c then 1 else 0)"
  by (auto simp: AddConnection_def set_insert_def split: if_splits)

lemma insort_key_distinct_keys:
  "key x \<notin> key ` set xs \<Longrightarrow> distinct (map key xs) \<Longrightarrow>
   distinct (map key (insort_key key x xs))"
  by (induction xs) (auto simp: set_insort_key)

lemma AddConnection_distinct_keys:
  "distinct (map key cs) \<Longrightarrow> AddConnection key c cs = Inr (b, cs') \<Longrightarrow>
   distinct (map key cs')"
  by (auto simp: AddConnection_def set_insert_def insort_key_distinct_keys split: if_splits)

lemma RemoveConnection_distinct_keys:
  "distinct (map key cs) \<Longrightarrow> RemoveConnection key c cs = Inr cs' \<Longrightarrow>
   distinct (map key cs')"
  by (auto simp: RemoveConnection_def set_erase_def distinct_map_filter split: if_splits)

text \<open>Whatever the set compares, it never holds two elements that compare equal.\<close>

lemma connection_events_distinct_keys:
  "distinct (map key cs) \<Longrightarrow> connection_events key evs cs = Inr cs' \<Longrightarrow>
   distinct (map key cs')"
proof (induction key evs cs rule: connection_events.induct)
  case (1 key cs)
  then show ?case by simp
next
  case (2 key c evs cs)
  then show ?case
    by (auto split: sum.splits dest: AddConnection_distinct_keys)
next
  case (3 key c evs cs)
  then show ?case
    by (auto split: sum.splits dest: RemoveConnection_distinct_keys)
next
  case (4 key peer_id evs cs)
  obtain closed effects where c: "CloseConnection peer_id cs = (closed, effects)"
    by (cases "CloseConnection peer_id cs")
  with 4 show ?case by simp
qed

lemma distinct_peers_one_normal:
  "distinct (map PeerNodeId cs) \<Longrightarrow> normal_to_peer p cs \<le> 1"
proof (induction cs)
  case Nil
  then show ?case by (simp add: normal_to_peer_def)
next
  case (Cons c cs)
  show ?case
  proof (cases "PeerNodeId c = p")
    case True
    from Cons.prems have "PeerNodeId c \<notin> set (map PeerNodeId cs)" by simp
    with True have "\<forall>x\<in>set cs. PeerNodeId x \<noteq> p"
      by (metis imageI image_set)
    then have "filter (\<lambda>c. IsNormal c \<and> PeerNodeId c = p) cs = []"
      by (auto simp: filter_empty_conv)
    then show ?thesis by (simp add: normal_to_peer_def)
  next
    case False
    with Cons show ?thesis by (simp add: normal_to_peer_def)
  qed
qed

text \<open>
  Were the set ordered by the peer id of its elements, no run of events would leave
  two connections to one peer in it (a second \<open>AddConnection\<close> for a peer would fail
  the assertion on \<open>result.second\<close>).
\<close>

lemma one_normal_per_peer_if_ordered_by_peer:
  "connection_events PeerNodeId evs [] = Inr cs \<Longrightarrow> normal_to_peer p cs \<le> 1"
  using connection_events_distinct_keys [of PeerNodeId "[]" evs cs]
    distinct_peers_one_normal [of cs p]
  by simp

text \<open>
  Claim C1: for every peer node id, at most one connection in a normal state is in the
  connection set at any instant, whatever the interleaving of \<open>add_connection\<close>,
  \<open>remove_connection\<close> and close events.

  \<open>AddConnection\<close> does not look the peer id up, and a set of connection pointers
  compares the pointers. From the empty set, adding two connection objects to the
  peer 7, one permanent and one unvalidated, succeeds twice and leaves two normal
  connections to peer 7 in the set.
\<close>

theorem two_normal_connections_to_one_peer:
  "connection_events conn_ptr
     [EvAdd \<lparr>conn_ptr = 1, state = kPermanent, PeerNodeId = 7\<rparr>,
      EvAdd \<lparr>conn_ptr = 2, state = kUnvalidated, PeerNodeId = 7\<rparr>] [] =
   Inr [\<lparr>conn_ptr = 1, state = kPermanent, PeerNodeId = 7\<rparr>,
        \<lparr>conn_ptr = 2, state = kUnvalidated, PeerNodeId = 7\<rparr>] \<and>
   normal_to_peer 7
     [\<lparr>conn_ptr = 1, state = kPermanent, PeerNodeId = 7\<rparr>,
      \<lparr>conn_ptr = 2, state = kUnvalidated, PeerNodeId = 7\<rparr>] = 2"
  by (simp add: AddConnection_def IsNormal_def set_insert_def normal_to_peer_def)

text \<open>
  Claim C2, as amended: under the precondition that the connection is not pending,
  \<open>AddConnection\<close> returns false and leaves the set unchanged when the connection is
  not in a normal state; when it is normal, is not in the set yet, and the set holds no
  connection to its peer, it is inserted and true is returned. The result is a
  boolean: there is no separate result for a peer that is already present.
\<close>

theorem AddConnection_result:
  assumes "state c \<noteq> kPending"
  shows "(\<not> IsNormal c \<longrightarrow> AddConnection key c cs = Inr (False, cs)) \<and>
         (IsNormal c \<and> FindConnection (PeerNodeId c) cs = None \<and> key c \<notin> key ` set cs \<longrightarrow>
            (\<exists>cs'. AddConnection key c cs = Inr (True, cs') \<and>
                   set cs' = insert c (set cs) \<and> length cs' = Suc (length cs)))"
  using assms by (auto simp: AddConnection_not_normal AddConnection_fresh set_insort_key)

theorem AddConnection_result_witness:
  "state \<lparr>conn_ptr = 3, state = kTemporary, PeerNodeId = 9\<rparr> \<noteq> kPending \<and>
   \<not> IsNormal \<lparr>conn_ptr = 3, state = kTemporary, PeerNodeId = 9\<rparr> \<and>
   AddConnection conn_ptr \<lparr>conn_ptr = 3, state = kTemporary, PeerNodeId = 9\<rparr>
     [sample_connection 1] = Inr (False, [sample_connection 1]) \<and>
   state (sample_connection 2) \<noteq> kPending \<and>
   IsNormal (sample_connection 2) \<and>
   FindConnection (PeerNodeId (sample_connection 2)) [sample_connection 1] = None \<and>
   conn_ptr (sample_connection 2) \<notin> conn_ptr ` set [sample_connection 1] \<and>
   (\<exists>cs'. AddConnection conn_ptr (sample_connection 2) [sample_connection 1] = Inr (True, cs') \<and>
          set cs' = insert (sample_connection 2) (set [sample_connection 1]) \<and>
          length cs' = Suc (length [sample_connection 1]))"
proof -
  have a: "state \<lparr>conn_ptr = 3, state = kTemporary, PeerNodeId = 9\<rparr> \<noteq> kPending"
    by simp
  have b: "state (sample_connection 2) \<noteq> kPending"
    by (simp add: sample_connection_def)
  have n: "\<not> IsNormal \<lparr>conn_ptr = 3, state = kTemporary, PeerNodeId = 9\<rparr>"
    by (simp add: IsNormal_def)
  have h: "IsNormal (sample_connection 2) \<and>
     FindConnection (PeerNodeId (sample_connection 2)) [sample_connection 1] = None \<and>
     conn_ptr (sample_connection 2) \<notin> conn_ptr ` set [sample_connection 1]"
    by (simp add: IsNormal_def FindConnection_def sample_connection_def)
  from AddConnection_result [OF a, of conn_ptr "[sample_connection 1]"]
    AddConnection_result [OF b, of conn_ptr "[sample_connection 1]"] a b n h
  show ?thesis by blast
qed

text \<open>
  Claim C2 as stated fails: the set holds a permanent connection to peer 7, and a
  second connection object to peer 7, unvalidated, is added. The lookup by peer id
  finds the first one, yet \<open>AddConnection\<close> returns true and the set holds both.
\<close>

theorem AddConnection_same_peer_inserted:
  "state \<lparr>conn_ptr = 2, state = kUnvalidated, PeerNodeId = 7\<rparr> \<noteq> kPending \<and>
   FindConnection 7 [\<lparr>conn_ptr = 1, state = kPermanent, PeerNodeId = 7\<rparr>] =
     Some \<lparr>conn_ptr = 1, state = kPermanent, PeerNodeId = 7\<rparr> \<and>
   AddConnection conn_ptr \<lparr>conn_ptr = 2, state = kUnvalidated, PeerNodeId = 7\<rparr>
       [\<lparr>conn_ptr = 1, state = kPermanent, PeerNodeId = 7\<rparr>]
     = Inr (True, [\<lparr>conn_ptr = 1, state = kPermanent, PeerNodeId = 7\<rparr>,
                   \<lparr>conn_ptr = 2, state = kUnvalidated, PeerNodeId = 7\<rparr>])"
  by (simp add: AddConnection_def IsNormal_def set_insert_def FindConnection_def)

text \<open>
  Claim C9, as amended: \<open>AddConnection\<close> does not consult \<open>kMaxConnections\<close>. A run of
  \<open>AddConnection\<close> calls that ends without a failed assertion leaves the set larger by
  exactly the number of connections in a normal state among those added.
\<close>

theorem add_connections_count:
  "add_connections key xs cs = Inr cs' \<Longrightarrow>
   NormalConnectionsCount cs' = NormalConnectionsCount cs + length (filter IsNormal xs)"
proof (induction xs arbitrary: cs)
  case Nil
  then show ?case by simp
next
  case (Cons x xs)
  from Cons.prems obtain b cs1 where a: "AddConnection key x cs = Inr (b, cs1)"
    and r: "add_connections key xs cs1 = Inr cs'"
    by (auto split: sum.splits)
  from Cons.IH [OF r] AddConnection_length [OF a] show ?case
    by (simp add: NormalConnectionsCount_def)
qed

theorem add_connections_count_witness:
  "add_connections conn_ptr [sample_connection 1, sample_connection 2] [] =
     Inr [sample_connection 1, sample_connection 2] \<and>
   NormalConnectionsCount [sample_connection 1, sample_connection 2] =
     NormalConnectionsCount [] +
     length (filter IsNormal [sample_connection 1, sample_connection 2])"
proof -
  have r: "add_connections conn_ptr [sample_connection 1, sample_connection 2] [] =
     Inr [sample_connection 1, sample_connection 2]"
    by (simp add: AddConnection_def IsNormal_def set_insert_def sample_connection_def)
  from r add_connections_count [OF r] show ?thesis by simp
qed

text \<open>
  Claim C9 as stated fails: from the empty set, 51 permanent connections to 51 peers
  are added one after the other. Every call succeeds and the set then holds 51
  connections, more than \<open>kMaxConnections\<close>.
\<close>

theorem connections_exceed_kMaxConnections:
  "add_connections conn_ptr (map sample_connection [0..<51]) [] =
     Inr (map sample_connection [0..<51]) \<and>
   NormalConnectionsCount (map sample_connection [0..<51]) = 51 \<and>
   \<not> NormalConnectionsCount (map sample_connection [0..<51]) \<le> kMaxConnections"
proof -
  have "add_connections conn_ptr (map sample_connection [0..<51]) [] =
     Inr (map sample_connection [0..<51])"
    by code_simp
  then show ?thesis by (simp add: NormalConnectionsCount_def kMaxConnections_def)
qed

section \<open>Properties of the socket registry\<close>

lemma AddSocket_loop_find:
  "AddSocket_loop socks i rs =
     (if usable_id socks i then Some (i, rs)
      else (case List.find (usable_id socks) rs of
              None \<Rightarrow> None
            | Some j \<Rightarrow> Some (j, tl (dropWhile (\<lambda>r. \<not> usable_id socks r) rs))))"
proof (induction socks i rs rule: AddSocket_loop.induct)
  case (1 socks i)
  then show ?case by (simp add: usable_id_def)
next
  case (2 socks i r rs)
  show ?case
  proof (cases "usable_id socks i")
    case True
    then show ?thesis by (simp add: usable_id_def)
  next
    case False
    then have c: "i = 0 \<or> map_of socks i \<noteq> None"
      by (auto simp: usable_id_def)
    then have step: "AddSocket_loop socks i (r # rs) = AddSocket_loop socks r rs"
      by simp
    note ih = "2.IH" [OF c]
    show ?thesis
    proof (cases "usable_id socks r")
      case True
      with False step ih show ?thesis by simp
    next
      case r: False
      with False step ih show ?thesis by (simp split: option.splits)
    qed
  qed
qed

lemma AddSocket_find:
  "AddSocket s random socks =
     (case List.find (usable_id socks) random of
        None \<Rightarrow> None
      | Some j \<Rightarrow> Some (j, AList.update j s socks,
                 tl (dropWhile (\<lambda>r. \<not> usable_id socks r) random)))"
  by (simp add: AddSocket_def AddSocket_loop_find usable_id_def split: option.splits)

lemma update_fresh_is_snoc:
  "map_of al k = None \<Longrightarrow> AList.update k v al = al @ [(k, v)]"
  by (induction al) (auto split: if_splits)

lemma AddSocket_Some:
  assumes "AddSocket s random socks = Some (i, socks', rest)"
  shows "usable_id socks i" and "List.find (usable_id socks) random = Some i"
    and "socks' = socks @ [(i, s)]"
proof -
  from assms have f: "List.find (usable_id socks) random = Some i"
    and u: "socks' = AList.update i s socks"
    by (auto simp: AddSocket_find split: option.splits)
  from f show "usable_id socks i" by (auto simp: find_Some_iff)
  then have "map_of socks i = None" by (simp add: usable_id_def)
  with u show "socks' = socks @ [(i, s)]" by (simp add: update_fresh_is_snoc)
  from f show "List.find (usable_id socks) random = Some i" .
qed

lemma AddSocket_returns:
  "\<exists>r\<in>set random. usable_id socks r \<Longrightarrow> AddSocket s random socks \<noteq> None"
  by (auto simp: AddSocket_find find_None_iff split: option.splits)

lemma registry_ok_AddSocket:
  assumes "registry_ok socks" "AddSocket s random socks = Some (i, socks', rest)"
  shows "registry_ok socks'"
proof -
  from AddSocket_Some [OF assms(2)]
  have u: "usable_id socks i" and e: "socks' = socks @ [(i, s)]"
    by simp_all
  from u have "i \<noteq> 0" "i \<notin> fst ` set socks"
    by (auto simp: usable_id_def map_of_eq_None_iff)
  with assms(1) e show ?thesis by (auto simp: registry_ok_def)
qed

lemma registry_ok_RemoveSocket: "registry_ok socks \<Longrightarrow> registry_ok (RemoveSocket i socks)"
  using dom_delete_subset [of i socks]
  by (auto simp: registry_ok_def RemoveSocket_def distinct_delete)

lemma registry_ok_run:
  "registry_ok socks \<Longrightarrow> registry_run ops socks = Some socks' \<Longrightarrow> registry_ok socks'"
proof (induction ops socks rule: registry_run.induct)
  case (1 socks)
  then show ?case by simp
next
  case (2 s random ops socks)
  then show ?case by (auto split: option.splits dest: registry_ok_AddSocket)
next
  case (3 i ops socks)
  then show ?case by (auto dest: registry_ok_RemoveSocket)
qed

lemma RemoveSocket_props:
  "RemoveSocket 0 socks = socks"
  "i \<noteq> 0 \<Longrightarrow> map_of (RemoveSocket i socks) i = None"
  "j \<noteq> i \<Longrightarrow> map_of (RemoveSocket i socks) j = map_of socks j"
  "RemoveSocket i (RemoveSocket i socks) = RemoveSocket i socks"
  by (auto simp: RemoveSocket_def delete_conv' delete_idem)

text \<open>
  Claim C6: \<open>AddSocket\<close> returns an id that is not zero and not in use at the time of
  the call, drawing again on a collision: the id is the first number drawn that is
  neither zero nor in use. Afterwards the id is registered to the added socket and the
  other entries are as before. The call returns whenever some number drawn is neither
  zero nor in use. \<open>RemoveSocket\<close> leaves the registry alone for the id zero, removes
  the entry of any other id and nothing else, and a second call with the same id
  changes nothing. In every registry reached from the empty one by \<open>AddSocket\<close> and
  \<open>RemoveSocket\<close> the ids are distinct and none is zero.
\<close>

theorem AddSocket_RemoveSocket_registry:
  "(\<forall>i socks' rest. AddSocket s random socks = Some (i, socks', rest) \<longrightarrow>
      i \<noteq> 0 \<and> map_of socks i = None \<and>
      List.find (usable_id socks) random = Some i \<and>
      map_of socks' i = Some s \<and>
      (\<forall>j. j \<noteq> i \<longrightarrow> map_of socks' j = map_of socks j)) \<and>
   ((\<exists>r\<in>set random. r \<noteq> 0 \<and> map_of socks r = None) \<longrightarrow>
      AddSocket s random socks \<noteq> None) \<and>
   RemoveSocket 0 socks = socks \<and>
   (k \<noteq> 0 \<longrightarrow> map_of (RemoveSocket k socks) k = None \<and>
      (\<forall>j. j \<noteq> k \<longrightarrow> map_of (RemoveSocket k socks) j = map_of socks j)) \<and>
   RemoveSocket k (RemoveSocket k socks) = RemoveSocket k socks \<and>
   (\<forall>socks'. registry_run ops [] = Some socks' \<longrightarrow>
      distinct (map fst socks') \<and> 0 \<notin> fst ` set socks')"
proof (intro conjI allI impI)
  fix i socks' rest
  assume a: "AddSocket s random socks = Some (i, socks', rest)"
  note r = AddSocket_Some [OF a]
  from r(1) show "i \<noteq> 0" "map_of socks i = None"
    by (simp_all add: usable_id_def)
  from r(2) show "List.find (usable_id socks) random = Some i" .
  from r(3) \<open>map_of socks i = None\<close> show "map_of socks' i = Some s"
    by (simp add: map_add_def)
  fix j
  assume "j \<noteq> i"
  with r(3) show "map_of socks' j = map_of socks j"
    by (simp add: map_add_def split: option.splits)
next
  assume "\<exists>r\<in>set random. r \<noteq> 0 \<and> map_of socks r = None"
  then have "\<exists>r\<in>set random. usable_id socks r"
    by (simp add: usable_id_def)
  then show "AddSocket s random socks \<noteq> None"
    by (rule AddSocket_returns)
next
  show "RemoveSocket 0 socks = socks"
    by (rule RemoveSocket_props)
next
  assume "k \<noteq> 0"
  then show "map_of (RemoveSocket k socks) k = None"
    by (rule RemoveSocket_props)
next
  fix j
  assume "j \<noteq> k"
  then show "map_of (RemoveSocket k socks) j = map_of socks j"
    by (rule RemoveSocket_props)
next
  show "RemoveSocket k (RemoveSocket k socks) = RemoveSocket k socks"
    by (rule RemoveSocket_props)
next
  fix socks'
  assume "registry_run ops [] = Some socks'"
  with registry_ok_run [of "[]" ops socks'] have "registry_ok socks'"
    by (simp add: registry_ok_def)
  then show "distinct (map fst socks')" "0 \<notin> fst ` set socks'"
    by (simp_all add: registry_ok_def)
qed

lemma sample_AddSocket:
  "AddSocket sample_socket [0, 5, 7, 9] [(5, sample_socket)] =
     Some (7, [(5, sample_socket), (7, sample_socket)], [9])"
  by (simp add: AddSocket_def)

lemma sample_registry_run:
  "registry_run
      [Add sample_socket [5], Add sample_socket [5, 0, 9], Remove 5, Remove 5, Remove 0] [] =
     Some [(9, sample_socket)]"
  by (simp add: AddSocket_def RemoveSocket_def)

theorem AddSocket_RemoveSocket_registry_witness:
  "AddSocket sample_socket [0, 5, 7, 9] [(5, sample_socket)] =
     Some (7, [(5, sample_socket), (7, sample_socket)], [9]) \<and>
   (7 :: 32 word) \<noteq> 0 \<and> map_of [(5, sample_socket)] (7 :: 32 word) = None \<and>
   List.find (usable_id [(5, sample_socket)]) [0, 5, 7, 9] = Some 7 \<and>
   map_of [(5 :: 32 word, sample_socket), (7, sample_socket)] 7 = Some sample_socket \<and>
   (\<exists>r\<in>set [0, 5, 7, 9 :: 32 word]. r \<noteq> 0 \<and> map_of [(5, sample_socket)] r = None) \<and>
   RemoveSocket 0 [(5, sample_socket)] = [(5, sample_socket)] \<and>
   (5 :: 32 word) \<noteq> 0 \<and> map_of (RemoveSocket 5 [(5, sample_socket)]) 5 = None \<and>
   RemoveSocket 5 (RemoveSocket 5 [(5, sample_socket)]) = RemoveSocket 5 [(5, sample_socket)] \<and>
   registry_run
      [Add sample_socket [5], Add sample_socket [5, 0, 9], Remove 5, Remove 5, Remove 0] [] =
     Some [(9, sample_socket)] \<and>
   distinct (map fst [(9 :: 32 word, sample_socket)]) \<and>
   (0 :: 32 word) \<notin> fst ` set [(9, sample_socket)]"
proof -
  note t = AddSocket_RemoveSocket_registry [of sample_socket "[0, 5, 7, 9]"
      "[(5, sample_socket)]" 5
      "[Add sample_socket [5], Add sample_socket [5, 0, 9], Remove 5, Remove 5, Remove 0]"]
  have e: "\<exists>r\<in>set [0, 5, 7, 9 :: 32 word]. r \<noteq> 0 \<and> map_of [(5, sample_socket)] r = None"
    by simp
  have n: "(5 :: 32 word) \<noteq> 0" by simp
  from t sample_AddSocket sample_registry_run e n show ?thesis
    by simp
qed

section \<open>Properties of the routing of handshakes\<close>

lemma find_pair_None:
  "List.find (\<lambda>(i, s). P s) al = None \<longleftrightarrow> \<not> (\<exists>i s. (i, s) \<in> set al \<and> P s)"
  by (auto simp: find_None_iff)

lemma find_pair_Some:
  "List.find (\<lambda>(i, s). P s) al = Some (k, v) \<Longrightarrow> (k, v) \<in> set al \<and> P v"
  by (induction al) (auto split: if_splits)

lemma find_pair_cases:
  obtains "\<not> (\<exists>i s. (i, s) \<in> set al \<and> P s)" "List.find (\<lambda>(i, s). P s) al = None"
  | k v where "(k, v) \<in> set al" "P v" "List.find (\<lambda>(i, s). P s) al = Some (k, v)"
proof (cases "List.find (\<lambda>(i, s). P s) al")
  case None
  then have "\<not> (\<exists>i s. (i, s) \<in> set al \<and> P s)"
    by (simp add: find_pair_None)
  with None show ?thesis by (rule that(1) [rotated])
next
  case (Some p)
  obtain k v where p: "p = (k, v)" by (cases p)
  from Some p have f: "List.find (\<lambda>(i, s). P s) al = Some (k, v)" by simp
  from find_pair_Some [OF f] have "(k, v) \<in> set al" "P v" by simp_all
  then show ?thesis using f by (rule that(2))
qed

lemma FindConnection_None_iff:
  "FindConnection p cs = None \<longleftrightarrow> \<not> (\<exists>c\<in>set cs. PeerNodeId c = p)"
  by (auto simp: FindConnection_def find_None_iff)

lemma FindConnection_Some:
  "FindConnection p cs = Some c \<Longrightarrow> c \<in> set cs \<and> PeerNodeId c = p"
  by (auto simp: FindConnection_def find_Some_iff)

text \<open>
  Claim C3: a handshake packet with destination socket id 0 and reason \<open>kNormal\<close>
  arrives from a sender that is the peer endpoint of no registered socket. Then the
  sockets are searched by address only, among those whose peer endpoint is not on a
  private network and that are not connected. If there is none, no socket is returned
  and nothing else happens: the packet is dropped. If there is one, such a socket is
  returned, \<open>UpdatePeerEndpoint(sender)\<close> has been called on it exactly once and on no
  other socket, and it is registered with the sender as its peer endpoint.
\<close>

theorem GetSocket_normal_handshake_revision:
  assumes "DecodeDestinationSocketId data = Some 0"
    and "Decode data = Some hs"
    and "ConnectionReason hs = kNormal"
    and "\<not> (\<exists>i s. (i, s) \<in> set (sockets cm) \<and> PeerEndpoint s = ep)"
  shows "(\<not> (\<exists>i s. (i, s) \<in> set (sockets cm) \<and>
                address (PeerEndpoint s) = address ep \<and>
                \<not> OnPrivateNetwork ext (PeerEndpoint s) \<and> \<not> IsConnected s) \<longrightarrow>
            GetSocket ext cm data ep = (None, cm, [])) \<and>
         ((\<exists>i s. (i, s) \<in> set (sockets cm) \<and>
                address (PeerEndpoint s) = address ep \<and>
                \<not> OnPrivateNetwork ext (PeerEndpoint s) \<and> \<not> IsConnected s) \<longrightarrow>
            (\<exists>i s cm'. (i, s) \<in> set (sockets cm) \<and>
                address (PeerEndpoint s) = address ep \<and>
                \<not> OnPrivateNetwork ext (PeerEndpoint s) \<and> \<not> IsConnected s \<and>
                GetSocket ext cm data ep = (Some i, cm', [SocketUpdatePeerEndpoint i ep]) \<and>
                cm' = cm\<lparr>sockets := AList.update i (UpdatePeerEndpoint ep s) (sockets cm)\<rparr> \<and>
                map_of (sockets cm') i = Some (UpdatePeerEndpoint ep s) \<and>
                PeerEndpoint (UpdatePeerEndpoint ep s) = ep))"
proof -
  let ?Q = "\<lambda>s. address (PeerEndpoint s) = address ep \<and>
                \<not> OnPrivateNetwork ext (PeerEndpoint s) \<and> \<not> IsConnected s"
  from assms(4) have exact: "List.find (\<lambda>(i, s). PeerEndpoint s = ep) (sockets cm) = None"
    by (simp add: find_pair_None)
  show ?thesis
  proof (cases rule: find_pair_cases [of "sockets cm" ?Q])
    case 1
    with exact assms(1-3) show ?thesis
      by (simp add: GetSocket_def)
  next
    case (2 i s)
    then have ne: "sockets cm \<noteq> []" by auto
    have m: "map_of (AList.update i (UpdatePeerEndpoint ep s) (sockets cm)) i =
        Some (UpdatePeerEndpoint ep s)"
      by (simp add: update_conv')
    from 2(3) exact assms(1-3) ne
    have g: "GetSocket ext cm data ep =
        (Some i, cm\<lparr>sockets := AList.update i (UpdatePeerEndpoint ep s) (sockets cm)\<rparr>,
         [SocketUpdatePeerEndpoint i ep])"
      by (simp add: GetSocket_def)
    have e: "PeerEndpoint (UpdatePeerEndpoint ep s) = ep"
      by (simp add: UpdatePeerEndpoint_def)
    from 2(1,2) g m e show ?thesis by auto
  qed
qed

theorem GetSocket_normal_handshake_revision_witness:
  "DecodeDestinationSocketId (sample_handshake 7 kNormal) = Some 0 \<and>
   Decode (sample_handshake 7 kNormal) = Some \<lparr>node_id = 7, ConnectionReason = kNormal\<rparr> \<and>
   ConnectionReason \<lparr>node_id = 7, ConnectionReason = kNormal\<rparr> = kNormal \<and>
   \<not> (\<exists>i s. (i, s) \<in> set (sockets sample_manager) \<and> PeerEndpoint s = sample_sender) \<and>
   (5, sample_socket) \<in> set (sockets sample_manager) \<and>
   address (PeerEndpoint sample_socket) = address sample_sender \<and>
   \<not> OnPrivateNetwork sample_externals (PeerEndpoint sample_socket) \<and>
   \<not> IsConnected sample_socket \<and>
   (\<exists>i s cm'. (i, s) \<in> set (sockets sample_manager) \<and>
      GetSocket sample_externals sample_manager (sample_handshake 7 kNormal) sample_sender =
        (Some i, cm', [SocketUpdatePeerEndpoint i sample_sender]) \<and>
      map_of (sockets cm') i = Some (UpdatePeerEndpoint sample_sender s)) \<and>
   \<not> (\<exists>i s. (i, s) \<in> set (sockets sample_manager) \<and>
          address (PeerEndpoint s) = 9 \<and>
          \<not> OnPrivateNetwork sample_externals (PeerEndpoint s) \<and> \<not> IsConnected s) \<and>
   GetSocket sample_externals sample_manager (sample_handshake 7 kNormal)
       \<lparr>address = 9, port = 40123\<rparr> = (None, sample_manager, [])"
proof -
  have h1: "DecodeDestinationSocketId (sample_handshake 7 kNormal) = Some 0"
    and h2: "Decode (sample_handshake 7 kNormal) =
      Some \<lparr>node_id = 7, ConnectionReason = kNormal\<rparr>"
    and h3: "ConnectionReason \<lparr>node_id = 7, ConnectionReason = kNormal\<rparr> = kNormal"
    by (simp_all add: sample_handshake_def)
  have h4: "\<not> (\<exists>i s. (i, s) \<in> set (sockets sample_manager) \<and> PeerEndpoint s = sample_sender)"
    by (simp add: sample_manager_def sample_socket_def sample_sender_def)
  have h5: "\<not> (\<exists>i s. (i, s) \<in> set (sockets sample_manager) \<and>
      PeerEndpoint s = \<lparr>address = 9, port = 40123\<rparr>)"
    by (simp add: sample_manager_def sample_socket_def)
  have m: "(5, sample_socket) \<in> set (sockets sample_manager) \<and>
      address (PeerEndpoint sample_socket) = address sample_sender \<and>
      \<not> OnPrivateNetwork sample_externals (PeerEndpoint sample_socket) \<and>
      \<not> IsConnected sample_socket"
    by (simp add: sample_manager_def sample_socket_def sample_sender_def
        sample_externals_def sample_private_def)
  have n: "\<not> (\<exists>i s. (i, s) \<in> set (sockets sample_manager) \<and>
          address (PeerEndpoint s) = 9 \<and>
          \<not> OnPrivateNetwork sample_externals (PeerEndpoint s) \<and> \<not> IsConnected s)"
    by (simp add: sample_manager_def sample_socket_def)
  note a = GetSocket_normal_handshake_revision [OF h1 h2 h3 h4, of sample_externals]
  note b = GetSocket_normal_handshake_revision [OF h1 h2 h3 h5, of sample_externals]
  from m a have "\<exists>i s cm'. (i, s) \<in> set (sockets sample_manager) \<and>
      GetSocket sample_externals sample_manager (sample_handshake 7 kNormal) sample_sender =
        (Some i, cm', [SocketUpdatePeerEndpoint i sample_sender]) \<and>
      map_of (sockets cm') i = Some (UpdatePeerEndpoint sample_sender s)"
    by blast
  moreover from n b
  have "GetSocket sample_externals sample_manager (sample_handshake 7 kNormal)
       \<lparr>address = 9, port = 40123\<rparr> = (None, sample_manager, [])"
    by simp
  ultimately show ?thesis using h1 h2 h3 h4 m n by blast
qed

text \<open>
  Claim C4, as amended: a handshake packet with destination socket id 0 and a reason
  other than \<open>kNormal\<close> arrives. While the socket registry is empty the packet is
  dropped: no socket is returned, \<open>HandlePingFrom\<close> is not invoked and nothing changes.
  While the registry is not empty: if no registered socket has the sender as its peer
  endpoint, \<open>HandlePingFrom(handshake, sender)\<close> is invoked and no socket is returned;
  if one has, such a socket is returned and nothing else happens.
\<close>

theorem GetSocket_other_handshake:
  assumes "DecodeDestinationSocketId data = Some 0"
    and "Decode data = Some hs"
    and "ConnectionReason hs \<noteq> kNormal"
  shows "(sockets cm = [] \<longrightarrow> GetSocket ext cm data ep = (None, cm, [])) \<and>
         (sockets cm \<noteq> [] \<longrightarrow>
            (\<not> (\<exists>i s. (i, s) \<in> set (sockets cm) \<and> PeerEndpoint s = ep) \<longrightarrow>
               GetSocket ext cm data ep = (None, HandlePingFrom ext cm hs ep)) \<and>
            ((\<exists>i s. (i, s) \<in> set (sockets cm) \<and> PeerEndpoint s = ep) \<longrightarrow>
               (\<exists>i s. (i, s) \<in> set (sockets cm) \<and> PeerEndpoint s = ep \<and>
                      GetSocket ext cm data ep = (Some i, cm, []))))"
proof (intro conjI impI)
  assume "sockets cm = []"
  then show "GetSocket ext cm data ep = (None, cm, [])"
    by (simp add: GetSocket_def)
next
  assume ne: "sockets cm \<noteq> []"
    and "\<not> (\<exists>i s. (i, s) \<in> set (sockets cm) \<and> PeerEndpoint s = ep)"
  then have "List.find (\<lambda>(i, s). PeerEndpoint s = ep) (sockets cm) = None"
    by (simp add: find_pair_None)
  with ne assms show "GetSocket ext cm data ep = (None, HandlePingFrom ext cm hs ep)"
    by (simp add: GetSocket_def split: prod.splits)
next
  assume ne: "sockets cm \<noteq> []"
    and ex: "\<exists>i s. (i, s) \<in> set (sockets cm) \<and> PeerEndpoint s = ep"
  show "\<exists>i s. (i, s) \<in> set (sockets cm) \<and> PeerEndpoint s = ep \<and>
                      GetSocket ext cm data ep = (Some i, cm, [])"
  proof (cases rule: find_pair_cases [of "sockets cm" "\<lambda>s. PeerEndpoint s = ep"])
    case 1
    with ex show ?thesis by simp
  next
    case (2 i s)
    from 2(3) ne assms have "GetSocket ext cm data ep = (Some i, cm, [])"
      by (simp add: GetSocket_def)
    with 2(1,2) show ?thesis by auto
  qed
qed

theorem GetSocket_other_handshake_witness:
  "DecodeDestinationSocketId (sample_handshake 7 kPing) = Some 0 \<and>
   Decode (sample_handshake 7 kPing) = Some \<lparr>node_id = 7, ConnectionReason = kPing\<rparr> \<and>
   ConnectionReason \<lparr>node_id = 7, ConnectionReason = kPing\<rparr> \<noteq> kNormal \<and>
   sockets (sample_manager\<lparr>sockets := []\<rparr>) = [] \<and>
   GetSocket sample_externals (sample_manager\<lparr>sockets := []\<rparr>) (sample_handshake 7 kPing)
     sample_sender = (None, sample_manager\<lparr>sockets := []\<rparr>, []) \<and>
   sockets sample_manager \<noteq> [] \<and>
   \<not> (\<exists>i s. (i, s) \<in> set (sockets sample_manager) \<and> PeerEndpoint s = sample_sender) \<and>
   GetSocket sample_externals sample_manager (sample_handshake 7 kPing) sample_sender =
     (None, HandlePingFrom sample_externals sample_manager
        \<lparr>node_id = 7, ConnectionReason = kPing\<rparr> sample_sender) \<and>
   (5, sample_socket) \<in> set (sockets sample_manager) \<and>
   (\<exists>i s. (i, s) \<in> set (sockets sample_manager) \<and>
      PeerEndpoint s = PeerEndpoint sample_socket \<and>
      GetSocket sample_externals sample_manager (sample_handshake 7 kPing)
        (PeerEndpoint sample_socket) = (Some i, sample_manager, []))"
proof -
  have h1: "sockets sample_manager \<noteq> []"
    by (simp add: sample_manager_def)
  have h0: "sockets (sample_manager\<lparr>sockets := []\<rparr>) = []"
    by simp
  have h2: "DecodeDestinationSocketId (sample_handshake 7 kPing) = Some 0"
    and h3: "Decode (sample_handshake 7 kPing) = Some \<lparr>node_id = 7, ConnectionReason = kPing\<rparr>"
    and h4: "ConnectionReason \<lparr>node_id = 7, ConnectionReason = kPing\<rparr> \<noteq> kNormal"
    by (simp_all add: sample_handshake_def)
  have n: "\<not> (\<exists>i s. (i, s) \<in> set (sockets sample_manager) \<and> PeerEndpoint s = sample_sender)"
    by (simp add: sample_manager_def sample_socket_def sample_sender_def)
  have m: "(5, sample_socket) \<in> set (sockets sample_manager)"
    by (simp add: sample_manager_def)
  note a = GetSocket_other_handshake [OF h2 h3 h4, of sample_manager sample_externals
      sample_sender]
  note b = GetSocket_other_handshake [OF h2 h3 h4, of sample_manager sample_externals
      "PeerEndpoint sample_socket"]
  note e = GetSocket_other_handshake [OF h2 h3 h4, of "sample_manager\<lparr>sockets := []\<rparr>"
      sample_externals sample_sender]
  from h0 e
  have "GetSocket sample_externals (sample_manager\<lparr>sockets := []\<rparr>)
      (sample_handshake 7 kPing) sample_sender = (None, sample_manager\<lparr>sockets := []\<rparr>, [])"
    by blast
  moreover from h1 n a
  have "GetSocket sample_externals sample_manager (sample_handshake 7 kPing) sample_sender =
     (None, HandlePingFrom sample_externals sample_manager
        \<lparr>node_id = 7, ConnectionReason = kPing\<rparr> sample_sender)"
    by blast
  moreover from h1 m b have "\<exists>i s. (i, s) \<in> set (sockets sample_manager) \<and>
      PeerEndpoint s = PeerEndpoint sample_socket \<and>
      GetSocket sample_externals sample_manager (sample_handshake 7 kPing)
        (PeerEndpoint sample_socket) = (Some i, sample_manager, [])"
    by blast
  ultimately show ?thesis using h0 h1 h2 h3 h4 n m by blast
qed

text \<open>
  Claim C4 as stated fails: the socket registry is empty and a handshake packet with
  destination socket id 0 and reason \<open>kPing\<close> arrives from a valid endpoint. No
  registered socket has the sender as its peer endpoint, yet \<open>GetSocket\<close> returns with
  no effect at all, whereas \<open>HandlePingFrom\<close> on this packet starts a connection.
\<close>

theorem GetSocket_empty_registry_no_ping_handling:
  "sockets (sample_manager\<lparr>sockets := []\<rparr>) = [] \<and>
   DecodeDestinationSocketId (sample_handshake 7 kPing) = Some 0 \<and>
   Decode (sample_handshake 7 kPing) = Some \<lparr>node_id = 7, ConnectionReason = kPing\<rparr> \<and>
   GetSocket sample_externals (sample_manager\<lparr>sockets := []\<rparr>) (sample_handshake 7 kPing)
     sample_sender = (None, sample_manager\<lparr>sockets := []\<rparr>, []) \<and>
   HandlePingFrom sample_externals (sample_manager\<lparr>sockets := []\<rparr>)
     \<lparr>node_id = 7, ConnectionReason = kPing\<rparr> sample_sender =
     (sample_manager\<lparr>sockets := []\<rparr>,
      [MakeConnection,
       StartConnecting 7 sample_sender '''' (Duration 2000) (Duration 600000) None])"
  by (simp add: GetSocket_def HandlePingFrom_def Connect_def FindConnection_def
      sample_manager_def sample_handshake_def sample_externals_def sample_valid_def
      sample_sender_def sample_connection_def)

text \<open>
  Claim C5: \<open>HandlePingFrom\<close> does nothing when the packet's node id is this node's id.
  Otherwise, when the sender is a valid endpoint: if the set holds a connection to the
  packet's node id and the reason is not \<open>kBootstrapAndDrop\<close>, such a connection is
  closed and no connect is started; otherwise \<open>Connect\<close> is called for the packet's node
  id and the sender with empty validation data, the bootstrap connect timeout, and a
  lifespan of zero for \<open>kBootstrapAndDrop\<close> and the bootstrap connection lifespan for
  any other reason (which, while the transport is alive, makes a connection and
  starts it connecting).
\<close>

theorem HandlePingFrom_policy:
  "(node_id hs = kThisNodeId cm \<longrightarrow> HandlePingFrom ext cm hs ep = (cm, [])) \<and>
   (node_id hs \<noteq> kThisNodeId cm \<and> IsValid ext ep \<longrightarrow>
      ((\<exists>c\<in>set (connections cm). PeerNodeId c = node_id hs) \<and>
       ConnectionReason hs \<noteq> kBootstrapAndDrop \<longrightarrow>
         (\<exists>c\<in>set (connections cm). PeerNodeId c = node_id hs \<and>
            HandlePingFrom ext cm hs ep = (cm, [ConnectionClose (conn_ptr c)]))) \<and>
      (\<not> (\<exists>c\<in>set (connections cm). PeerNodeId c = node_id hs) \<or>
       ConnectionReason hs = kBootstrapAndDrop \<longrightarrow>
         HandlePingFrom ext cm hs ep =
           Connect cm (node_id hs) ep '''' (bootstrap_connect_timeout ext)
             (if ConnectionReason hs = kBootstrapAndDrop then Duration 0
              else bootstrap_connection_lifespan ext) None \<and>
         HandlePingFrom ext cm hs ep =
           (cm, if transport_alive cm
                then [MakeConnection,
                      StartConnecting (node_id hs) ep '''' (bootstrap_connect_timeout ext)
                        (if ConnectionReason hs = kBootstrapAndDrop then Duration 0
                         else bootstrap_connection_lifespan ext) None]
                else [])))"
proof (intro conjI impI)
  assume "node_id hs = kThisNodeId cm"
  then show "HandlePingFrom ext cm hs ep = (cm, [])"
    by (simp add: HandlePingFrom_def)
next
  assume a: "node_id hs \<noteq> kThisNodeId cm \<and> IsValid ext ep"
    and b: "(\<exists>c\<in>set (connections cm). PeerNodeId c = node_id hs) \<and>
       ConnectionReason hs \<noteq> kBootstrapAndDrop"
  from b obtain c where f: "FindConnection (node_id hs) (connections cm) = Some c"
    using FindConnection_None_iff [of "node_id hs" "connections cm"] by auto
  from a b f have "HandlePingFrom ext cm hs ep = (cm, [ConnectionClose (conn_ptr c)])"
    by (simp add: HandlePingFrom_def)
  with FindConnection_Some [OF f]
  show "\<exists>c\<in>set (connections cm). PeerNodeId c = node_id hs \<and>
            HandlePingFrom ext cm hs ep = (cm, [ConnectionClose (conn_ptr c)])"
    by auto
next
  assume a: "node_id hs \<noteq> kThisNodeId cm \<and> IsValid ext ep"
    and b: "\<not> (\<exists>c\<in>set (connections cm). PeerNodeId c = node_id hs) \<or>
       ConnectionReason hs = kBootstrapAndDrop"
  from b have j: "(case FindConnection (node_id hs) (connections cm) of
        Some c \<Rightarrow> if \<not> ConnectionReason hs = kBootstrapAndDrop then Some c else None
      | None \<Rightarrow> None) = None"
    using FindConnection_None_iff [of "node_id hs" "connections cm"]
    by (auto split: option.splits)
  from a j show c: "HandlePingFrom ext cm hs ep =
           Connect cm (node_id hs) ep '''' (bootstrap_connect_timeout ext)
             (if ConnectionReason hs = kBootstrapAndDrop then Duration 0
              else bootstrap_connection_lifespan ext) None"
    by (simp add: HandlePingFrom_def Let_def)
  then show "HandlePingFrom ext cm hs ep =
           (cm, if transport_alive cm
                then [MakeConnection,
                      StartConnecting (node_id hs) ep '''' (bootstrap_connect_timeout ext)
                        (if ConnectionReason hs = kBootstrapAndDrop then Duration 0
                         else bootstrap_connection_lifespan ext) None]
                else [])"
    by (simp add: Connect_def)
qed

theorem HandlePingFrom_policy_witness:
  "node_id \<lparr>node_id = 100, ConnectionReason = kPing\<rparr> = kThisNodeId sample_manager \<and>
   HandlePingFrom sample_externals sample_manager \<lparr>node_id = 100, ConnectionReason = kPing\<rparr>
     sample_sender = (sample_manager, []) \<and>
   node_id \<lparr>node_id = 2, ConnectionReason = kPing\<rparr> \<noteq> kThisNodeId sample_manager \<and>
   IsValid sample_externals sample_sender \<and>
   (\<exists>c\<in>set (connections sample_manager).
      PeerNodeId c = node_id \<lparr>node_id = 2, ConnectionReason = kPing\<rparr>) \<and>
   ConnectionReason \<lparr>node_id = 2, ConnectionReason = kPing\<rparr> \<noteq> kBootstrapAndDrop \<and>
   HandlePingFrom sample_externals sample_manager \<lparr>node_id = 2, ConnectionReason = kPing\<rparr>
     sample_sender = (sample_manager, [ConnectionClose 1]) \<and>
   HandlePingFrom sample_externals sample_manager
     \<lparr>node_id = 2, ConnectionReason = kBootstrapAndDrop\<rparr> sample_sender =
     (sample_manager,
      [MakeConnection, StartConnecting 2 sample_sender '''' (Duration 2000) (Duration 0) None]) \<and>
   \<not> (\<exists>c\<in>set (connections sample_manager).
      PeerNodeId c = node_id \<lparr>node_id = 3, ConnectionReason = kNormal\<rparr>) \<and>
   HandlePingFrom sample_externals sample_manager
     \<lparr>node_id = 3, ConnectionReason = kNormal\<rparr> sample_sender =
     (sample_manager,
      [MakeConnection,
       StartConnecting 3 sample_sender '''' (Duration 2000) (Duration 600000) None])"
proof -
  note t = HandlePingFrom_policy [of _ sample_manager sample_externals sample_sender]
  have v: "IsValid sample_externals sample_sender"
    by (simp add: sample_externals_def sample_valid_def sample_sender_def)
  have k: "kThisNodeId sample_manager = 100" "transport_alive sample_manager"
    "connections sample_manager = [sample_connection 1]"
    by (simp_all add: sample_manager_def)
  have p: "PeerNodeId (sample_connection 1) = 2" "conn_ptr (sample_connection 1) = 1"
    by (simp_all add: sample_connection_def)
  have x: "bootstrap_connect_timeout sample_externals = Duration 2000"
    "bootstrap_connection_lifespan sample_externals = Duration 600000"
    by (simp_all add: sample_externals_def)
  from t [of "\<lparr>node_id = 100, ConnectionReason = kPing\<rparr>"]
    t [of "\<lparr>node_id = 2, ConnectionReason = kPing\<rparr>"]
    t [of "\<lparr>node_id = 2, ConnectionReason = kBootstrapAndDrop\<rparr>"]
    t [of "\<lparr>node_id = 3, ConnectionReason = kNormal\<rparr>"]
    v k p x
  show ?thesis by (simp add: Connect_def)
qed

text \<open>
  Claim C10: when the owning transport is gone (\<open>transport_.lock()\<close> yields nothing),
  \<open>Ping\<close> has no effect: no connection is made, the connection manager is unchanged and
  the ping functor is handed to nobody, so it is never invoked. The same holds of
  \<open>Connect\<close>.
\<close>

theorem Ping_Connect_dead_transport:
  "\<not> transport_alive cm \<Longrightarrow>
   Ping cm peer_id peer_endpoint ping_functor = (cm, []) \<and>
   Connect cm peer_id peer_endpoint validation_data connect_attempt_timeout lifespan
     failure_functor = (cm, [])"
  by (simp add: Ping_def Connect_def)

theorem Ping_Connect_dead_transport_witness:
  "\<not> transport_alive (sample_manager\<lparr>transport_alive := False\<rparr>) \<and>
   Ping (sample_manager\<lparr>transport_alive := False\<rparr>) 7 (PeerEndpoint sample_socket) 1 =
     (sample_manager\<lparr>transport_alive := False\<rparr>, []) \<and>
   Connect (sample_manager\<lparr>transport_alive := False\<rparr>) 7 (PeerEndpoint sample_socket) ''''
     (Duration 2000) pos_infin None = (sample_manager\<lparr>transport_alive := False\<rparr>, []) \<and>
   Ping sample_manager 7 (PeerEndpoint sample_socket) 1 =
     (sample_manager, [MakeConnection, ConnectionPing 7 (PeerEndpoint sample_socket) 1])"
proof -
  have d: "\<not> transport_alive (sample_manager\<lparr>transport_alive := False\<rparr>)"
    by simp
  have a: "Ping sample_manager 7 (PeerEndpoint sample_socket) 1 =
     (sample_manager, [MakeConnection, ConnectionPing 7 (PeerEndpoint sample_socket) 1])"
    by (simp add: Ping_def sample_manager_def)
  from d a Ping_Connect_dead_transport [OF d] show ?thesis by blast
qed

section \<open>Properties of the rendezvous connect\<close>

text \<open>
  Claim C7, as amended: if the multiplexer is closed, \<open>DoConnect\<close> calls the handler
  with \<open>failed_to_connect\<close> and starts no connect. If the external endpoint is valid, a
  connect to it with the rendezvous connect timeout is started; its connect handler is
  \<open>on_connect2\<close> when the local endpoint differs from the external one, and
  \<open>on_connect\<close> otherwise. When the external attempt ends, with whatever error code,
  \<open>on_connect2\<close> starts a connect to the local endpoint if the multiplexer is still
  open; if it is closed by then, \<open>on_connect2\<close> passes the outcome to the default
  connect handler and to the caller's handler and starts nothing. If the external
  endpoint is invalid, one connect is started, to the local endpoint.
\<close>

theorem DoConnect_rendezvous:
  "(\<not> multiplexer_IsOpen \<longrightarrow>
      DoConnect ext multiplexer_IsOpen peer_id pair key = [Handler (Some failed_to_connect)] \<and>
      connects_started (DoConnect ext multiplexer_IsOpen peer_id pair key) = []) \<and>
   (multiplexer_IsOpen \<and> IsValid ext (external pair) \<longrightarrow>
      DoConnect ext multiplexer_IsOpen peer_id pair key =
        [ConnectionManager_Connect peer_id (external pair) key
           (rendezvous_connect_timeout ext) pos_infin
           (if local pair \<noteq> external pair then on_connect2 else on_connect)] \<and>
      DoConnect_on_connect2 ext True peer_id pair key error c =
        [ConnectionManager_Connect peer_id (local pair) key
           (rendezvous_connect_timeout ext) pos_infin on_connect] \<and>
      DoConnect_on_connect2 ext False peer_id pair key error c =
        [default_on_connect error c, Handler error] \<and>
      DoConnect_on_connect error c = [default_on_connect error c, Handler error]) \<and>
   (multiplexer_IsOpen \<and> \<not> IsValid ext (external pair) \<longrightarrow>
      DoConnect ext multiplexer_IsOpen peer_id pair key =
        [ConnectionManager_Connect peer_id (local pair) key
           (rendezvous_connect_timeout ext) pos_infin on_connect])"
  by (simp add: DoConnect_def DoConnect_on_connect2_def DoConnect_on_connect_def)

theorem DoConnect_rendezvous_witness:
  "DoConnect sample_externals False 7 sample_pair 1 = [Handler (Some failed_to_connect)] \<and>
   connects_started (DoConnect sample_externals False 7 sample_pair 1) = [] \<and>
   IsValid sample_externals (external sample_pair) \<and>
   local sample_pair \<noteq> external sample_pair \<and>
   DoConnect sample_externals True 7 sample_pair 1 =
     [ConnectionManager_Connect 7 (external sample_pair) 1 (Duration 5000) pos_infin
        on_connect2] \<and>
   DoConnect_on_connect2 sample_externals True 7 sample_pair 1 None 3 =
     [ConnectionManager_Connect 7 (local sample_pair) 1 (Duration 5000) pos_infin on_connect] \<and>
   \<not> IsValid sample_externals (external (sample_pair\<lparr>external := Endpoint_default\<rparr>)) \<and>
   DoConnect sample_externals True 7 (sample_pair\<lparr>external := Endpoint_default\<rparr>) 1 =
     [ConnectionManager_Connect 7 (local sample_pair) 1 (Duration 5000) pos_infin on_connect]"
proof -
  have v: "IsValid sample_externals (external sample_pair)"
    "local sample_pair \<noteq> external sample_pair"
    "\<not> IsValid sample_externals (external (sample_pair\<lparr>external := Endpoint_default\<rparr>))"
    "rendezvous_connect_timeout sample_externals = Duration 5000"
    "local (sample_pair\<lparr>external := Endpoint_default\<rparr>) = local sample_pair"
    by (simp_all add: sample_externals_def sample_valid_def sample_pair_def sample_sender_def
        Endpoint_default_def)
  from DoConnect_rendezvous [of False sample_externals 7 sample_pair 1]
    DoConnect_rendezvous [of True sample_externals 7 sample_pair 1 None 3]
    DoConnect_rendezvous [of True sample_externals 7
      "sample_pair\<lparr>external := Endpoint_default\<rparr>" 1]
    v
  show ?thesis by simp
qed

text \<open>
  Claim C7 as stated fails: the multiplexer is open when \<open>DoConnect\<close> runs, the
  external endpoint is valid and differs from the local one, so the connect to the
  external endpoint is started with \<open>on_connect2\<close>. The attempt times out after the
  multiplexer has been closed: \<open>on_connect2\<close> starts no connect to the local endpoint.
\<close>

theorem DoConnect_no_local_connect_when_closed:
  "IsValid sample_externals (external sample_pair) \<and>
   local sample_pair \<noteq> external sample_pair \<and>
   DoConnect sample_externals True 7 sample_pair 1 =
     [ConnectionManager_Connect 7 (external sample_pair) 1 (Duration 5000) pos_infin
        on_connect2] \<and>
   DoConnect_on_connect2 sample_externals False 7 sample_pair 1 (Some timed_out) 3 =
     [default_on_connect (Some timed_out) 3, Handler (Some timed_out)] \<and>
   connects_started
     (DoConnect_on_connect2 sample_externals False 7 sample_pair 1 (Some timed_out) 3) = []"
  by (simp add: DoConnect_def DoConnect_on_connect2_def DoConnect_on_connect_def
      sample_externals_def sample_valid_def sample_pair_def sample_sender_def)

section \<open>Properties of bootstrapping\<close>

lemma bootstrap_reports_append:
  "bootstrap_reports (xs @ ys) = bootstrap_reports xs @ bootstrap_reports ys"
  by (induction xs rule: bootstrap_reports.induct) simp_all

lemma connects_started_append:
  "connects_started (xs @ ys) = connects_started xs @ connects_started ys"
  by (induction xs rule: connects_started.induct) simp_all

lemma contact_effects:
  "ConnectToBootstrapEndpoint_contact ext l c oc = (es, p) \<Longrightarrow>
   bootstrap_reports es = [] \<and> connects_started es = attempted ext [c]"
  by (auto simp: ConnectToBootstrapEndpoint_contact_def attempted_def Let_def
      split: if_splits option.splits)

lemma iterate_all_fail:
  "\<forall>x\<in>set cs. \<not> NodeId_IsValid (yielded_id ext l x) \<Longrightarrow>
   \<exists>es. ConnectToBootstrapEndpoint ext l cs = (map fst cs, es, NodeId_default) \<and>
        bootstrap_reports es = [] \<and> connects_started es = attempted ext (map fst cs)"
proof (induction cs)
  case Nil
  then show ?case by (simp add: attempted_def)
next
  case (Cons x cs)
  obtain c oc where x: "x = (c, oc)" by (cases x)
  obtain es p where e: "ConnectToBootstrapEndpoint_contact ext l c oc = (es, p)"
    by (cases "ConnectToBootstrapEndpoint_contact ext l c oc")
  from Cons.prems x e have np: "\<not> NodeId_IsValid p"
    by (simp add: yielded_id_def)
  from Cons obtain es' where r: "ConnectToBootstrapEndpoint ext l cs = (map fst cs, es', NodeId_default)"
    and b: "bootstrap_reports es' = []" and a: "connects_started es' = attempted ext (map fst cs)"
    by auto
  from x e np r have "ConnectToBootstrapEndpoint ext l (x # cs) =
      (map fst (x # cs), es @ es', NodeId_default)"
    by simp
  moreover from contact_effects [OF e] b have "bootstrap_reports (es @ es') = []"
    by (simp add: bootstrap_reports_append)
  moreover from contact_effects [OF e] a x
  have "connects_started (es @ es') = attempted ext (map fst (x # cs))"
    by (simp add: connects_started_append attempted_def)
  ultimately show ?case by blast
qed

lemma iterate_first_valid:
  "\<forall>y\<in>set pre. \<not> NodeId_IsValid (yielded_id ext l y) \<Longrightarrow>
   NodeId_IsValid (yielded_id ext l x) \<Longrightarrow>
   \<exists>es. ConnectToBootstrapEndpoint ext l (pre @ x # post) =
          (map fst pre @ [fst x], es, yielded_id ext l x) \<and>
        bootstrap_reports es = [] \<and>
        connects_started es = attempted ext (map fst pre @ [fst x])"
proof (induction pre)
  case Nil
  obtain c oc where x: "x = (c, oc)" by (cases x)
  obtain es p where e: "ConnectToBootstrapEndpoint_contact ext l c oc = (es, p)"
    by (cases "ConnectToBootstrapEndpoint_contact ext l c oc")
  from Nil x e have p: "NodeId_IsValid p" "yielded_id ext l x = p"
    by (simp_all add: yielded_id_def)
  with x e have "ConnectToBootstrapEndpoint ext l ([] @ x # post) =
      (map fst [] @ [fst x], es, yielded_id ext l x)"
    by simp
  with contact_effects [OF e] x show ?case by auto
next
  case (Cons y pre)
  obtain c oc where y: "y = (c, oc)" by (cases y)
  obtain es p where e: "ConnectToBootstrapEndpoint_contact ext l c oc = (es, p)"
    by (cases "ConnectToBootstrapEndpoint_contact ext l c oc")
  from Cons.prems y e have np: "\<not> NodeId_IsValid p"
    by (simp add: yielded_id_def)
  from Cons obtain es' where r: "ConnectToBootstrapEndpoint ext l (pre @ x # post) =
          (map fst pre @ [fst x], es', yielded_id ext l x)"
    and b: "bootstrap_reports es' = []"
    and a: "connects_started es' = attempted ext (map fst pre @ [fst x])"
    by auto
  from y e np r have "ConnectToBootstrapEndpoint ext l ((y # pre) @ x # post) =
      (map fst (y # pre) @ [fst x], es @ es', yielded_id ext l x)"
    by simp
  moreover from contact_effects [OF e] b have "bootstrap_reports (es @ es') = []"
    by (simp add: bootstrap_reports_append)
  moreover from contact_effects [OF e] a y
  have "connects_started (es @ es') = attempted ext (map fst (y # pre) @ [fst x])"
    by (simp add: connects_started_append attempted_def)
  ultimately show ?case by blast
qed

lemma find_own_id:
  "\<forall>y\<in>set pre. contact_id y \<noteq> contact_id c \<Longrightarrow>
   List.find (\<lambda>k. contact_id k = contact_id c) (pre @ c # post) = Some c"
  by (induction pre) auto

text \<open>
  Claim C8, as amended. Outgoing attempts are made (the transport is not bootstrapping off
  an existing connection behind a symmetric NAT), and no candidate has the transport's
  local endpoint as one of its endpoints, as the code asserts. Then:
  \<^item> if no candidate yields a valid peer id, all candidates are tried, in the order of
    the list, and the bootstrap handler is called exactly once, with \<open>kNotConnectable\<close>
    and the default-constructed contact;
  \<^item> if a candidate yields a valid peer id and none before it does, the candidates up to
    it are tried, in the order of the list, and none after it. If some contact of the
    list has the yielded peer id, the bootstrap handler is called exactly once, with
    \<open>kSuccess\<close> and the first contact of the list whose id is the yielded peer id. If
    no contact of the list has the yielded peer id, the assertion of \<open>on_bootstrap\<close>
    fails and the bootstrap handler is not called;
  \<^item> the contact reported is the successful candidate itself when the candidate yields
    its own id and no candidate before it in the list has this id.
\<close>

theorem TryBootstrapping_candidates:
  assumes "\<not> (bootstrap_off_existing_connection \<and> nat_type = kSymmetric)"
    and "\<not> list_ex (\<lambda>(peer, outcome). local_endpoint = local (endpoint_pair peer) \<or>
                                    local_endpoint = external (endpoint_pair peer)) cs"
    and "lifespan = (if bootstrap_off_existing_connection then Duration 0
                     else bootstrap_connection_lifespan ext)"
  shows "((\<forall>x\<in>set cs. \<not> NodeId_IsValid (yielded_id ext lifespan x)) \<longrightarrow>
            (\<exists>es. TryBootstrapping ext nat_type local_endpoint cs
                     bootstrap_off_existing_connection = Inr (map fst cs, es) \<and>
                  connects_started es = attempted ext (map fst cs) \<and>
                  bootstrap_reports es = [(kNotConnectable, Contact_default)])) \<and>
         (\<forall>pre x post.
            cs = pre @ x # post \<and>
            (\<forall>y\<in>set pre. \<not> NodeId_IsValid (yielded_id ext lifespan y)) \<and>
            NodeId_IsValid (yielded_id ext lifespan x) \<longrightarrow>
            (List.find (\<lambda>k. contact_id k = yielded_id ext lifespan x) (map fst cs) = None \<longrightarrow>
               TryBootstrapping ext nat_type local_endpoint cs
                 bootstrap_off_existing_connection = Inl AssertionFailed) \<and>
            (\<forall>r. List.find (\<lambda>k. contact_id k = yielded_id ext lifespan x) (map fst cs) =
                   Some r \<longrightarrow>
               (\<exists>es. TryBootstrapping ext nat_type local_endpoint cs
                        bootstrap_off_existing_connection =
                        Inr (map fst pre @ [fst x], es) \<and>
                     connects_started es = attempted ext (map fst pre @ [fst x]) \<and>
                     bootstrap_reports es = [(kSuccess, r)]))) \<and>
         (\<forall>pre x post.
            cs = pre @ x # post \<and>
            yielded_id ext lifespan x = contact_id (fst x) \<and>
            (\<forall>y\<in>set pre. contact_id (fst y) \<noteq> contact_id (fst x)) \<longrightarrow>
            List.find (\<lambda>k. contact_id k = yielded_id ext lifespan x) (map fst cs) =
              Some (fst x))"
proof (intro conjI allI impI)
  assume f: "\<forall>x\<in>set cs. \<not> NodeId_IsValid (yielded_id ext lifespan x)"
  from iterate_all_fail [OF f] obtain es
    where r: "ConnectToBootstrapEndpoint ext lifespan cs = (map fst cs, es, NodeId_default)"
      and b: "bootstrap_reports es = []"
      and a: "connects_started es = attempted ext (map fst cs)"
    by blast
  have o: "on_bootstrap (map fst cs) NodeId_default =
      Inr [BootstrapHandler kNotConnectable Contact_default]"
    by (simp add: on_bootstrap_def NodeId_IsValid_def)
  from assms r o have "TryBootstrapping ext nat_type local_endpoint cs
      bootstrap_off_existing_connection =
      Inr (map fst cs, es @ [BootstrapHandler kNotConnectable Contact_default])"
    by (auto simp: TryBootstrapping_def Let_def)
  with a b show "\<exists>es. TryBootstrapping ext nat_type local_endpoint cs
                     bootstrap_off_existing_connection = Inr (map fst cs, es) \<and>
                  connects_started es = attempted ext (map fst cs) \<and>
                  bootstrap_reports es = [(kNotConnectable, Contact_default)]"
    by (simp add: bootstrap_reports_append connects_started_append)
next
  fix pre x post
  assume h: "cs = pre @ x # post \<and>
            (\<forall>y\<in>set pre. \<not> NodeId_IsValid (yielded_id ext lifespan y)) \<and>
            NodeId_IsValid (yielded_id ext lifespan x)"
    and k: "List.find (\<lambda>k. contact_id k = yielded_id ext lifespan x) (map fst cs) = None"
  from h have f: "\<forall>y\<in>set pre. \<not> NodeId_IsValid (yielded_id ext lifespan y)"
    and v: "NodeId_IsValid (yielded_id ext lifespan x)"
    and c: "cs = pre @ x # post"
    by blast+
  from iterate_first_valid [OF f v, of post] c obtain es
    where r: "ConnectToBootstrapEndpoint ext lifespan cs =
        (map fst pre @ [fst x], es, yielded_id ext lifespan x)"
    by auto
  from v k have o: "on_bootstrap (map fst cs) (yielded_id ext lifespan x) =
      Inl AssertionFailed"
    by (simp add: on_bootstrap_def)
  from assms r o show "TryBootstrapping ext nat_type local_endpoint cs
      bootstrap_off_existing_connection = Inl AssertionFailed"
    by (auto simp: TryBootstrapping_def Let_def)
next
  fix pre x post r
  assume h: "cs = pre @ x # post \<and>
            (\<forall>y\<in>set pre. \<not> NodeId_IsValid (yielded_id ext lifespan y)) \<and>
            NodeId_IsValid (yielded_id ext lifespan x)"
    and k: "List.find (\<lambda>k. contact_id k = yielded_id ext lifespan x) (map fst cs) = Some r"
  from h have f: "\<forall>y\<in>set pre. \<not> NodeId_IsValid (yielded_id ext lifespan y)"
    and v: "NodeId_IsValid (yielded_id ext lifespan x)"
    and c: "cs = pre @ x # post"
    by blast+
  from iterate_first_valid [OF f v, of post] c obtain es
    where r: "ConnectToBootstrapEndpoint ext lifespan cs =
        (map fst pre @ [fst x], es, yielded_id ext lifespan x)"
      and b: "bootstrap_reports es = []"
      and a: "connects_started es = attempted ext (map fst pre @ [fst x])"
    by auto
  from v k have o: "on_bootstrap (map fst cs) (yielded_id ext lifespan x) =
      Inr [BootstrapHandler kSuccess r]"
    by (simp add: on_bootstrap_def)
  from assms r o have "TryBootstrapping ext nat_type local_endpoint cs
      bootstrap_off_existing_connection =
      Inr (map fst pre @ [fst x], es @ [BootstrapHandler kSuccess r])"
    by (auto simp: TryBootstrapping_def Let_def)
  with a b show "\<exists>es. TryBootstrapping ext nat_type local_endpoint cs
                     bootstrap_off_existing_connection = Inr (map fst pre @ [fst x], es) \<and>
                  connects_started es = attempted ext (map fst pre @ [fst x]) \<and>
                  bootstrap_reports es = [(kSuccess, r)]"
    by (simp add: bootstrap_reports_append connects_started_append)
next
  fix pre x post
  assume h: "cs = pre @ x # post \<and>
            yielded_id ext lifespan x = contact_id (fst x) \<and>
            (\<forall>y\<in>set pre. contact_id (fst y) \<noteq> contact_id (fst x))"
  then have "\<forall>y\<in>set (map fst pre). contact_id y \<noteq> contact_id (fst x)"
    by simp
  from find_own_id [OF this, of "map fst post"] h
  show "List.find (\<lambda>k. contact_id k = yielded_id ext lifespan x) (map fst cs) = Some (fst x)"
    by simp
qed

theorem TryBootstrapping_candidates_witness:
  "\<not> (False \<and> kOther = kSymmetric) \<and>
   \<not> list_ex (\<lambda>(peer, outcome).
        \<lparr>address = 1, port = 5000\<rparr> = local (endpoint_pair peer) \<or>
        \<lparr>address = 1, port = 5000\<rparr> = external (endpoint_pair peer)) sample_candidates \<and>
   \<not> NodeId_IsValid
        (yielded_id sample_externals (Duration 600000) (sample_contact 4 20, None)) \<and>
   NodeId_IsValid
        (yielded_id sample_externals (Duration 600000) (sample_contact 5 21, Some 5)) \<and>
   (\<exists>es. TryBootstrapping sample_externals kOther \<lparr>address = 1, port = 5000\<rparr>
            sample_candidates False =
            Inr ([sample_contact 4 20, sample_contact 5 21], es) \<and>
         connects_started es =
            attempted sample_externals [sample_contact 4 20, sample_contact 5 21] \<and>
         bootstrap_reports es = [(kSuccess, sample_contact 5 21)]) \<and>
   (\<exists>es. TryBootstrapping sample_externals kOther \<lparr>address = 1, port = 5000\<rparr>
            [(sample_contact 4 20, None), (sample_contact 5 21, None)] False =
            Inr ([sample_contact 4 20, sample_contact 5 21], es) \<and>
         connects_started es =
            attempted sample_externals [sample_contact 4 20, sample_contact 5 21] \<and>
         bootstrap_reports es = [(kNotConnectable, Contact_default)]) \<and>
   NodeId_IsValid
        (yielded_id sample_externals (Duration 600000) (sample_contact 5 21, Some 9)) \<and>
   List.find (\<lambda>k. contact_id k =
        yielded_id sample_externals (Duration 600000) (sample_contact 5 21, Some 9))
      (map fst [(sample_contact 5 21, Some 9)]) = None \<and>
   TryBootstrapping sample_externals kOther \<lparr>address = 1, port = 5000\<rparr>
     [(sample_contact 5 21, Some 9)] False = Inl AssertionFailed"
proof -
  let ?me = "\<lparr>address = 1, port = 5000\<rparr> :: endpoint"
  let ?l = "Duration 600000"
  let ?fail = "[(sample_contact 4 20, None), (sample_contact 5 21, None)]"
  let ?odd = "[(sample_contact 5 21, Some (9 :: node_id))]"
  have h1: "\<not> (False \<and> kOther = kSymmetric)" by simp
  have h2: "\<not> list_ex (\<lambda>(peer, outcome). ?me = local (endpoint_pair peer) \<or>
        ?me = external (endpoint_pair peer)) sample_candidates"
    by (simp add: sample_candidates_def sample_contact_def)
  have h2': "\<not> list_ex (\<lambda>(peer, outcome). ?me = local (endpoint_pair peer) \<or>
        ?me = external (endpoint_pair peer)) ?fail"
    by (simp add: sample_contact_def)
  have h2'': "\<not> list_ex (\<lambda>(peer, outcome). ?me = local (endpoint_pair peer) \<or>
        ?me = external (endpoint_pair peer)) ?odd"
    by (simp add: sample_contact_def)
  have h3: "?l = (if False then Duration 0 else bootstrap_connection_lifespan sample_externals)"
    by (simp add: sample_externals_def)
  have y4: "\<not> NodeId_IsValid (yielded_id sample_externals ?l (sample_contact 4 20, None))"
    and y5: "NodeId_IsValid (yielded_id sample_externals ?l (sample_contact 5 21, Some 5))"
    and y5': "\<not> NodeId_IsValid (yielded_id sample_externals ?l (sample_contact 5 21, None))"
    and y: "yielded_id sample_externals ?l (sample_contact 5 21, Some 5) = 5"
    and y9: "NodeId_IsValid (yielded_id sample_externals ?l (sample_contact 5 21, Some 9))"
    and y9': "yielded_id sample_externals ?l (sample_contact 5 21, Some 9) = 9"
    by (simp_all add: yielded_id_def ConnectToBootstrapEndpoint_contact_def sample_contact_def
        sample_externals_def sample_valid_def NodeId_IsValid_def NodeId_default_def)
  have s: "sample_candidates =
      [(sample_contact 4 20, None)] @ (sample_contact 5 21, Some 5) #
      [(sample_contact 6 22, Some 6)]"
    by (simp add: sample_candidates_def)
  have s9: "?odd = [] @ (sample_contact 5 21, Some 9) # []"
    by simp
  have f: "List.find (\<lambda>k. contact_id k =
        yielded_id sample_externals ?l (sample_contact 5 21, Some 5))
      (map fst sample_candidates) = Some (sample_contact 5 21)"
    unfolding y by (simp add: sample_candidates_def sample_contact_def)
  have f9: "List.find (\<lambda>k. contact_id k =
        yielded_id sample_externals ?l (sample_contact 5 21, Some 9))
      (map fst ?odd) = None"
    unfolding y9' by (simp add: sample_contact_def)
  note t = TryBootstrapping_candidates [OF h1 h2 h3]
  note u = TryBootstrapping_candidates [OF h1 h2' h3]
  note w = TryBootstrapping_candidates [OF h1 h2'' h3]
  from t s y4 y5 f
  have a: "\<exists>es. TryBootstrapping sample_externals kOther ?me sample_candidates False =
            Inr (map fst [(sample_contact 4 20, None :: node_id option)] @
                   [fst (sample_contact 5 21, Some (5 :: node_id))], es) \<and>
         connects_started es =
            attempted sample_externals
              (map fst [(sample_contact 4 20, None :: node_id option)] @
                   [fst (sample_contact 5 21, Some (5 :: node_id))]) \<and>
         bootstrap_reports es = [(kSuccess, sample_contact 5 21)]"
    by (metis list.set(1) list.set(2) singletonD)
  from u y4 y5'
  have b: "\<exists>es. TryBootstrapping sample_externals kOther ?me ?fail False =
            Inr (map fst ?fail, es) \<and>
         connects_started es = attempted sample_externals (map fst ?fail) \<and>
         bootstrap_reports es = [(kNotConnectable, Contact_default)]"
    by simp
  from w s9 y9 f9
  have c: "TryBootstrapping sample_externals kOther ?me ?odd False = Inl AssertionFailed"
    by (metis empty_iff list.set(1))
  from a b c h1 h2 y4 y5 y9 f9 show ?thesis by simp
qed

text \<open>
  Claim C8 as stated fails: the list names the node 5 twice, at two endpoints. The
  attempt on the first candidate fails, the attempt on the second one yields the peer
  id 5. The iteration ends there, and the bootstrap handler is called with \<open>kSuccess\<close>
  and the first candidate, which is not the candidate that yielded the peer id.
\<close>

theorem TryBootstrapping_reports_other_contact:
  "TryBootstrapping sample_externals kOther \<lparr>address = 1, port = 5000\<rparr>
     [(sample_contact 5 20, None), (sample_contact 5 21, Some 5)] False =
     Inr ([sample_contact 5 20, sample_contact 5 21],
          [ConnectionManager_Connect 5 \<lparr>address = 20, port = 5000\<rparr> 1 (Duration 2000)
             (Duration 600000) bootstrap_on_connect,
           ConnectionManager_Connect 5 \<lparr>address = 21, port = 5000\<rparr> 1 (Duration 2000)
             (Duration 600000) bootstrap_on_connect,
           default_on_connect None 0, DetectNatType 5,
           BootstrapHandler kSuccess (sample_contact 5 20)]) \<and>
   \<not> NodeId_IsValid (yielded_id sample_externals (Duration 600000) (sample_contact 5 20, None)) \<and>
   NodeId_IsValid (yielded_id sample_externals (Duration 600000) (sample_contact 5 21, Some 5)) \<and>
   sample_contact 5 20 \<noteq> sample_contact 5 21"
  by (simp add: TryBootstrapping_def ConnectToBootstrapEndpoint_contact_def on_bootstrap_def
      sample_contact_def sample_externals_def sample_valid_def yielded_id_def
      NodeId_IsValid_def NodeId_default_def Let_def)

end
